theory Spec2Isabelle
  imports Complex_Main
begin

section \<open>Values, elements and instances\<close>

text \<open>
  The popup component of \<^verbatim>\<open>popup.copy.js\<close> is modelled over an explicit store.
  Element references and instance references are store addresses; a reference a
  JavaScript variable holds is a \<open>nat option\<close>, \<open>None\<close> standing for
  \<^verbatim>\<open>null\<close> or \<^verbatim>\<open>undefined\<close>. Dereferencing \<open>None\<close> is the
  \<^verbatim>\<open>TypeError\<close> the engine raises.
\<close>

datatype error = TypeError | SyntaxError | NotFoundError

text \<open>
  A style value: the empty string, a keyword or percentage such as \<^verbatim>\<open>'none'\<close>
  or \<^verbatim>\<open>'50%'\<close>, a number with \<^verbatim>\<open>'px'\<close> appended, or a bare number
  (\<^verbatim>\<open>style.top = 0\<close>).
\<close>

datatype css = Blank | Keyword string | Px rat | Number int

record style =
  s_position :: css
  s_display :: css
  s_width :: css
  s_height :: css
  s_overflowX :: css
  s_overflowY :: css
  s_top :: css
  s_left :: css
  s_marginTop :: css
  s_marginLeft :: css

text \<open>
  What the \<^verbatim>\<open>onscroll\<close> slot of an element holds: \<^verbatim>\<open>null\<close>, a function
  of the page, or the closure \<^verbatim>\<open>function() { self.targetEl.scrollTop = top; }\<close>
  that \<^verbatim>\<open>open\<close> creates (with the instance and the captured \<^verbatim>\<open>top\<close>).
\<close>

datatype handler = Null | PageFn nat | ScrollLock nat int

text \<open>
  The function objects handed to \<^verbatim>\<open>addEvent\<close> and \<^verbatim>\<open>removeEvent\<close>.
  Every evaluation of a function expression makes a new object; the first argument is
  that object's identity, the second the instance captured as \<^verbatim>\<open>self\<close>.
\<close>

datatype closure = OnContainer nat nat | OnMask nat nat | PromptOk nat nat "nat option"


record element =
  className :: string
  style :: style
  parentNode :: "nat option"
  childNodes :: "nat list"
  innerHTML :: string
  onscroll :: handler
  scrollTop :: int
  listeners :: "(string \<times> closure \<times> bool) list"

text \<open>The fields of a \<^verbatim>\<open>Popup\<close> object (the constructor, lines 65-138, and the
  fields the methods add). A boolean field that may be \<^verbatim>\<open>null\<close> or
  \<^verbatim>\<open>undefined\<close> is a \<open>bool option\<close>.\<close>

record popup =
  targetEl :: "nat option"
  disposable :: "bool option"
  mask_flag :: "bool option"
  closeOnMask :: bool
  popupEl :: "nat option"
  containerEl :: "nat option"
  maskEl :: "nat option"
  innerEl :: "nat option"
  closeEl :: "nat option"
  autoSize :: bool
  scrollEvent :: "handler option"
  prefixClass :: "string option"
  delayCalculate :: "int option"
  isClosed :: "bool option"

text \<open>\<^verbatim>\<open>_eventsList\<close>: the four hooks, each a function (its identity) or
  \<^verbatim>\<open>undefined\<close>.\<close>

record events =
  beforeClose :: "nat option"
  afterClose :: "nat option"
  okCallback :: "nat option"
  cancelCallback :: "nat option"

text \<open>
  The page state. \<^verbatim>\<open>_eventsList: {}\<close> is a property of
  \<^verbatim>\<open>Popup.prototype\<close> (line 715) and no method ever assigns
  \<^verbatim>\<open>this._eventsList\<close>, so every \<^verbatim>\<open>this._eventsList\<close> reads that one
  object: it is a field of the world, not of an instance. \<open>timers\<close> are the pending
  \<^verbatim>\<open>setTimeout\<close> callbacks of \<^verbatim>\<open>open\<close> (delay and instance).
\<close>

record world =
  elems :: "nat \<Rightarrow> element"
  next_el :: nat
  popups :: "nat \<Rightarrow> popup"
  next_popup :: nat
  eventsList :: events
  next_fn :: nat
  timers :: "(int \<times> nat) list"
  activeElement :: "nat option"

text \<open>
  The browser, as far as the code consults it: \<^verbatim>\<open>root.querySelector\<close> (root
  \<open>None\<close> is the document), the layout measurements, and whether
  \<^verbatim>\<open>document.addEventListener\<close> exists. Layout and queries may depend on the
  whole page, so they take the page state. The store holds the elements the component
  creates with \<^verbatim>\<open>createElement\<close>; what the markup assigned to
  \<^verbatim>\<open>innerHTML\<close> parses to is the browser's business, and a query is how the code
  gets at it.
\<close>

record env =
  rootQuerySelector :: "world \<Rightarrow> nat option \<Rightarrow> string \<Rightarrow> error + nat option"
  offsetWidth :: "world \<Rightarrow> nat \<Rightarrow> int"
  offsetHeight :: "world \<Rightarrow> nat \<Rightarrow> int"
  clientWidth :: "world \<Rightarrow> nat \<Rightarrow> int"
  clientHeight :: "world \<Rightarrow> nat \<Rightarrow> int"
  eventStream :: bool

definition body :: nat where
  "body = 0"

definition documentElement :: nat where
  "documentElement = 1"

definition thenE :: "error + 'a \<Rightarrow> ('a \<Rightarrow> error + 'b) \<Rightarrow> error + 'b" where
  "thenE r f = (case r of Inl e \<Rightarrow> Inl e | Inr x \<Rightarrow> f x)"

definition deref :: "nat option \<Rightarrow> error + nat" where
  "deref r = (case r of None \<Rightarrow> Inl TypeError | Some e \<Rightarrow> Inr e)"

definition truthy :: "bool option \<Rightarrow> bool" where
  "truthy b = (case b of None \<Rightarrow> False | Some v \<Rightarrow> v)"

definition upd_el :: "nat \<Rightarrow> (element \<Rightarrow> element) \<Rightarrow> world \<Rightarrow> world" where
  "upd_el e f w = w\<lparr>elems := (elems w)(e := f (elems w e))\<rparr>"

definition set_style :: "nat \<Rightarrow> (style \<Rightarrow> style) \<Rightarrow> world \<Rightarrow> world" where
  "set_style e f w = upd_el e (\<lambda>x. x\<lparr>style := f (style x)\<rparr>) w"

definition upd_popup :: "nat \<Rightarrow> (popup \<Rightarrow> popup) \<Rightarrow> world \<Rightarrow> world" where
  "upd_popup i f w = w\<lparr>popups := (popups w)(i := f (popups w i))\<rparr>"

definition upd_events :: "(events \<Rightarrow> events) \<Rightarrow> world \<Rightarrow> world" where
  "upd_events f w = w\<lparr>eventsList := f (eventsList w)\<rparr>"

definition blank_style :: style where
  "blank_style = \<lparr>s_position = Blank, s_display = Blank, s_width = Blank, s_height = Blank,
     s_overflowX = Blank, s_overflowY = Blank, s_top = Blank, s_left = Blank,
     s_marginTop = Blank, s_marginLeft = Blank\<rparr>"

definition new_div :: element where
  "new_div = \<lparr>className = [], style = blank_style, parentNode = None, childNodes = [],
     innerHTML = [], onscroll = Null, scrollTop = 0, listeners = []\<rparr>"

definition createElement :: "world \<Rightarrow> nat \<times> world" where
  "createElement w =
     (next_el w, w\<lparr>elems := (elems w)(next_el w := new_div), next_el := Suc (next_el w)\<rparr>)"

definition appendChild :: "nat \<Rightarrow> nat \<Rightarrow> world \<Rightarrow> world" where
  "appendChild p c w =
     (let w1 = (case parentNode (elems w c) of
                  None \<Rightarrow> w
                | Some q \<Rightarrow> upd_el q (\<lambda>x. x\<lparr>childNodes := removeAll c (childNodes x)\<rparr>) w);
          w2 = upd_el p (\<lambda>x. x\<lparr>childNodes := childNodes x @ [c]\<rparr>) w1
      in upd_el c (\<lambda>x. x\<lparr>parentNode := Some p\<rparr>) w2)"

definition removeChild :: "nat \<Rightarrow> nat \<Rightarrow> world \<Rightarrow> error + world" where
  "removeChild p c w =
     (if parentNode (elems w c) = Some p
      then Inr (upd_el c (\<lambda>x. x\<lparr>parentNode := None\<rparr>)
                 (upd_el p (\<lambda>x. x\<lparr>childNodes := removeAll c (childNodes x)\<rparr>) w))
      else Inl NotFoundError)"

section \<open>The helper functions (lines 725-783)\<close>

definition is_space :: "char \<Rightarrow> bool" where
  "is_space c = (c = CHR '' '' \<or> c = CHR 0x09 \<or> c = CHR 0x0A \<or> c = CHR 0x0B
     \<or> c = CHR 0x0C \<or> c = CHR 0x0D)"

fun strip_prefix :: "string \<Rightarrow> string \<Rightarrow> string option" where
  "strip_prefix [] s = Some s"
| "strip_prefix (c # cs) [] = None"
| "strip_prefix (c # cs) (d # ds) = (if c = d then strip_prefix cs ds else None)"

definition cls_here :: "string \<Rightarrow> string \<Rightarrow> bool" where
  "cls_here cls s =
     (case strip_prefix cls s of
        None \<Rightarrow> False
      | Some [] \<Rightarrow> True
      | Some (c # r) \<Rightarrow> is_space c)"

fun cls_after_space :: "string \<Rightarrow> string \<Rightarrow> bool" where
  "cls_after_space cls [] = False"
| "cls_after_space cls (c # s) = ((is_space c \<and> cls_here cls s) \<or> cls_after_space cls s)"

text \<open>
  \<^verbatim>\<open>hasClass\<close>: the test of \<^verbatim>\<open>(^|\s)cls($|\s)\<close> against the class name, for a
  \<open>cls\<close> without regular-expression operators (every class name of the component is
  letters, hyphens and spaces).
\<close>

definition hasClass :: "world \<Rightarrow> nat \<Rightarrow> string \<Rightarrow> bool" where
  "hasClass w el cls =
     (cls_here cls (className (elems w el)) \<or> cls_after_space cls (className (elems w el)))"

definition addClass :: "nat \<Rightarrow> string \<Rightarrow> world \<Rightarrow> world" where
  "addClass el cls w =
     (if \<not> hasClass w el cls
      then upd_el el (\<lambda>x. x\<lparr>className := className x @ '' '' @ cls\<rparr>) w
      else w)"

text \<open>
  \<^verbatim>\<open>querySelector\<close> is called with a selector alone (\<open>r = None\<close>: the root is
  the document) or with a root reference and a selector (\<open>r = Some el\<close>; a
  \<^verbatim>\<open>null\<close> root raises).
\<close>

definition querySelector ::
  "env \<Rightarrow> world \<Rightarrow> nat option option \<Rightarrow> string \<Rightarrow> error + nat option" where
  "querySelector env w r selector =
     (case r of
        None \<Rightarrow> rootQuerySelector env w None selector
      | Some el \<Rightarrow> thenE (deref el) (\<lambda>e. rootQuerySelector env w (Some e) selector))"

fun tokens :: "string \<Rightarrow> string \<Rightarrow> string list" where
  "tokens cur [] = (if cur = [] then [] else [cur])"
| "tokens cur (c # s) =
     (if is_space c then (if cur = [] then tokens [] s else cur # tokens [] s)
      else tokens (cur @ [c]) s)"

text \<open>\<^verbatim>\<open>types.replace(/\s+/g, ' ').replace(/^\s+|\s+$/g, '').split(' ')\<close>: the
  words of the string, and the one empty word when there is none.\<close>

definition typeArr :: "string \<Rightarrow> string list" where
  "typeArr types = (case tokens [] types of [] \<Rightarrow> [[]] | t # ts \<Rightarrow> t # ts)"

datatype how = Add | Remove

text \<open>\<^verbatim>\<open>addEventListener\<close> ignores a listener already registered with the same
  type, function object and capture flag; \<^verbatim>\<open>removeEventListener\<close> removes the
  listener with that type, function object and capture flag, if there is one.\<close>

definition change_listener ::
  "how \<Rightarrow> nat \<Rightarrow> string \<times> closure \<times> bool \<Rightarrow> world \<Rightarrow> world" where
  "change_listener h el l w =
     (case h of
        Add \<Rightarrow> upd_el el (\<lambda>x. if l \<in> set (listeners x) then x
                               else x\<lparr>listeners := listeners x @ [l]\<rparr>) w
      | Remove \<Rightarrow> upd_el el (\<lambda>x. x\<lparr>listeners := removeAll l (listeners x)\<rparr>) w)"

definition eventHandler ::
  "env \<Rightarrow> nat option \<Rightarrow> string \<Rightarrow> closure \<Rightarrow> bool \<Rightarrow> how \<Rightarrow> world \<Rightarrow> error + world" where
  "eventHandler env els types callback onCatch h w =
     (case els of
        None \<Rightarrow> Inl TypeError
      | Some el \<Rightarrow>
          Inr (fold (\<lambda>t w'. if eventStream env
                             then change_listener h el (t, callback, onCatch) w'
                             else change_listener h el (''on'' @ t, callback, False) w')
                 (typeArr types) w))"

definition addEvent :: "env \<Rightarrow> nat option \<Rightarrow> string \<Rightarrow> closure \<Rightarrow> world \<Rightarrow> error + world" where
  "addEvent env els types callback w = eventHandler env els types callback False Add w"

definition removeEvent :: "env \<Rightarrow> nat option \<Rightarrow> string \<Rightarrow> closure \<Rightarrow> world \<Rightarrow> error + world" where
  "removeEvent env els types callback w = eventHandler env els types callback False Remove w"

definition new_fn :: "world \<Rightarrow> nat \<times> world" where
  "new_fn w = (next_fn w, w\<lparr>next_fn := Suc (next_fn w)\<rparr>)"

section \<open>The constructor (lines 65-138, 720-722)\<close>

definition new_popup :: "nat option \<Rightarrow> popup" where
  "new_popup t = \<lparr>targetEl = t, disposable = Some True, mask_flag = Some True,
     closeOnMask = False, popupEl = None, containerEl = None, maskEl = None,
     innerEl = None, closeEl = None, autoSize = True, scrollEvent = None,
     prefixClass = None, delayCalculate = None, isClosed = None\<rparr>"

text \<open>
  \<^verbatim>\<open>selector ? (UD.querySelector(selector) && document.body) : document.body\<close>.
  No argument and the empty string are falsy. \<^verbatim>\<open>a && b\<close> is \<open>b\<close> when \<open>a\<close>
  is an element and \<open>a\<close> itself when \<open>a\<close> is \<^verbatim>\<open>null\<close>.
\<close>

definition Popup :: "env \<Rightarrow> string option \<Rightarrow> world \<Rightarrow> error + nat \<times> world" where
  "Popup env selector w =
     thenE (case selector of
              None \<Rightarrow> Inr (Some body)
            | Some s \<Rightarrow>
                if s = [] then Inr (Some body)
                else thenE (querySelector env w None s)
                       (\<lambda>r. Inr (case r of None \<Rightarrow> None | Some m \<Rightarrow> Some body)))
       (\<lambda>t. Inr (next_popup w,
                 w\<lparr>popups := (popups w)(next_popup w := new_popup t),
                   next_popup := Suc (next_popup w)\<rparr>))"

section \<open>Building the subtree and binding the events (lines 597-662)\<close>

definition addPrefixClass :: "nat \<Rightarrow> nat \<Rightarrow> string \<Rightarrow> world \<Rightarrow> world" where
  "addPrefixClass i ele cls w =
     addClass ele
       (case prefixClass (popups w i) of
          None \<Rightarrow> cls
        | Some pre \<Rightarrow> if pre = [] then cls else pre @ cls @ '' '' @ cls) w"

definition createDOM :: "nat \<Rightarrow> string \<Rightarrow> world \<Rightarrow> error + world" where
  "createDOM i content w =
     (let (pE, wa) = createElement w;
          (cE, wb) = createElement wa;
          (iE, wc) = createElement wb;
          (mE, wd) = createElement wc;
          (xE, we) = createElement wd;
          w0 = upd_popup i (\<lambda>p. p\<lparr>popupEl := Some pE, containerEl := Some cE,
                 innerEl := Some iE, maskEl := Some mE, closeEl := Some xE\<rparr>) we
      in thenE (deref (targetEl (popups w0 i))) (\<lambda>t.
         let w1 = set_style t (\<lambda>s. s\<lparr>s_position := Keyword ''relative''\<rparr>) w0;
             w2 = addPrefixClass i pE ''popup-wrapper'' w1;
             w3 = (if targetEl (popups w2 i) = Some body
                   then addClass pE ''popup-inwindow'' w2 else w2);
             w4 = (if truthy (mask_flag (popups w3 i))
                   then appendChild pE mE (addPrefixClass i mE ''popup-mask'' w3) else w3);
             w5 = appendChild cE xE (addPrefixClass i xE ''popup-close'' w4);
             w6 = addPrefixClass i iE ''popup-inner'' (addPrefixClass i cE ''popup-container'' w5);
             w7 = upd_el iE (\<lambda>x. x\<lparr>innerHTML := content\<rparr>) w6;
             w8 = appendChild pE cE (appendChild cE iE w7);
             w9 = set_style pE (\<lambda>s. s\<lparr>s_display := Keyword ''none''\<rparr>) w8
         in Inr (appendChild t pE w9)))"

definition bindEvents :: "env \<Rightarrow> nat \<Rightarrow> world \<Rightarrow> error + world" where
  "bindEvents env i w =
     (let (f1, w1) = new_fn w
      in thenE (addEvent env (containerEl (popups w1 i)) ''click touchstart'' (OnContainer f1 i) w1)
           (\<lambda>w2. if truthy (mask_flag (popups w2 i))
                 then (let (f2, w3) = new_fn w2
                       in addEvent env (maskEl (popups w3 i)) ''click touchstart'' (OnMask f2 i) w3)
                 else Inr w2))"

section \<open>create (lines 164-178)\<close>

record options =
  o_content :: string
  o_prefixClass :: "string option"
  o_closeOnMask :: "bool option"
  o_autoSize :: "bool option"
  o_delayCalculate :: "int option"
  o_beforeClose :: "nat option"
  o_afterClose :: "nat option"

text \<open>What a method returns: \<^verbatim>\<open>this\<close> or \<^verbatim>\<open>true\<close>.\<close>

datatype ret = This nat | RetTrue

definition create :: "env \<Rightarrow> nat \<Rightarrow> options \<Rightarrow> world \<Rightarrow> error + ret \<times> world" where
  "create env i opts w =
     (let w1 = upd_popup i (\<lambda>p. p\<lparr>
                 prefixClass := Some (case o_prefixClass opts of None \<Rightarrow> [] | Some s \<Rightarrow> s),
                 closeOnMask := (case o_closeOnMask opts of None \<Rightarrow> False | Some b \<Rightarrow> b),
                 autoSize := (case o_autoSize opts of None \<Rightarrow> True | Some b \<Rightarrow> b),
                 delayCalculate := o_delayCalculate opts\<rparr>) w;
          w2 = upd_events (\<lambda>ev. ev\<lparr>beforeClose := o_beforeClose opts\<rparr>) w1;
          w3 = upd_events (\<lambda>ev. ev\<lparr>beforeClose := o_afterClose opts\<rparr>) w2;
          w4 = upd_popup i (\<lambda>p. p\<lparr>disposable := Some False\<rparr>) w3
      in thenE (createDOM i (o_content opts) w4) (\<lambda>w5.
         thenE (bindEvents env i w5) (\<lambda>w6. Inr (This i, w6))))"

section \<open>Size adaptation (lines 530-589)\<close>

text \<open>Lines 532-533: the forced size of the inner element \<open>iE\<close> is cleared. Lines
  535-542 measure the natural size of the content and the viewport in that state.\<close>

definition unforced :: "nat \<Rightarrow> world \<Rightarrow> world" where
  "unforced iE w = set_style iE (\<lambda>s. s\<lparr>s_height := Blank\<rparr>)
     (set_style iE (\<lambda>s. s\<lparr>s_width := Blank\<rparr>) w)"

definition calculateSize :: "env \<Rightarrow> nat \<Rightarrow> world \<Rightarrow> error + world" where
  "calculateSize env i w =
     thenE (deref (innerEl (popups w i))) (\<lambda>iE.
       let w1 = unforced iE w;
           adjustWidth0 = offsetWidth env w1 iE;
           adjustHeight0 = offsetHeight env w1 iE
       in thenE (deref (if targetEl (popups w1 i) = Some body then Some documentElement
                        else targetEl (popups w1 i))) (\<lambda>rootEl.
         let maxHeight = clientHeight env w1 rootEl;
             maxWidth = clientWidth env w1 rootEl;
             (adjustWidth1, adjustHeight1, w2) =
               (if adjustWidth0 > maxWidth - 100
                then (let wx = set_style iE (\<lambda>s. s\<lparr>s_overflowX := Keyword ''scroll''\<rparr>) w1
                      in (maxWidth - 100, offsetHeight env wx iE, wx))
                else (adjustWidth0, adjustHeight0,
                      set_style iE (\<lambda>s. s\<lparr>s_overflowX := Keyword ''hidden''\<rparr>) w1));
             (adjustWidth, adjustHeight, w3) =
               (if adjustHeight1 > maxHeight - 80
                then (let wy = set_style iE (\<lambda>s. s\<lparr>s_overflowY := Keyword ''scroll''\<rparr>) w2
                      in (offsetWidth env wy iE, maxHeight - 80, wy))
                else (adjustWidth1, adjustHeight1,
                      set_style iE (\<lambda>s. s\<lparr>s_overflowY := Keyword ''hidden''\<rparr>) w2));
             w4 = set_style iE (\<lambda>s. s\<lparr>s_width := Px (of_int adjustWidth),
                    s_height := Px (of_int adjustHeight)\<rparr>) w3
         in thenE (deref (containerEl (popups w4 i))) (\<lambda>cE.
           let w5 = set_style cE (\<lambda>s. s\<lparr>s_width := Px (of_int adjustWidth),
                      s_height := Px (of_int adjustHeight)\<rparr>) w4
           in if truthy (mask_flag (popups w5 i))
              then Inr (set_style cE (\<lambda>s. s\<lparr>s_top := Keyword ''50%'', s_left := Keyword ''50%'',
                          s_marginTop := Px (- of_int adjustHeight / 2),
                          s_marginLeft := Px (- of_int adjustWidth / 2)\<rparr>) w5)
              else (let w6 = set_style cE (\<lambda>s. s\<lparr>s_position := Keyword ''relative'',
                               s_top := Number 0, s_left := Number 0,
                               s_marginTop := Number 0, s_marginLeft := Number 0\<rparr>) w5
                    in thenE (deref (popupEl (popups w6 i))) (\<lambda>pE.
                         Inr (set_style pE (\<lambda>s. s\<lparr>s_width := Px (of_int adjustHeight),
                                s_height := Px (of_int adjustHeight),
                                s_top := Keyword ''50%'', s_left := Keyword ''50%'',
                                s_marginTop := Px (- of_int adjustHeight / 2),
                                s_marginLeft := Px (- of_int adjustWidth / 2)\<rparr>) w6))))))"

section \<open>open, close, refresh, destroy (lines 188-291)\<close>

definition open_popup :: "env \<Rightarrow> nat \<Rightarrow> world \<Rightarrow> error + ret \<times> world" where
  "open_popup env i w =
     thenE (deref (targetEl (popups w i))) (\<lambda>t.
       let top = scrollTop (elems w t);
           w1 = upd_popup i (\<lambda>p. p\<lparr>isClosed := Some False\<rparr>) w;
           w2 = (if truthy (mask_flag (popups w1 i))
                 then upd_el t (\<lambda>x. x\<lparr>onscroll := ScrollLock i top\<rparr>)
                        (if scrollEvent (popups w1 i) = None
                         then upd_popup i (\<lambda>p. p\<lparr>scrollEvent := Some (onscroll (elems w1 t))\<rparr>) w1
                         else w1)
                 else w1)
       in thenE (deref (popupEl (popups w2 i))) (\<lambda>pE.
         let w3 = set_style pE (\<lambda>s. s\<lparr>s_display := Blank\<rparr>) w2
         in if autoSize (popups w3 i)
            then (case delayCalculate (popups w3 i) of
                    Some d \<Rightarrow> Inr (This i, w3\<lparr>timers := timers w3 @ [(d, i)]\<rparr>)
                  | None \<Rightarrow> thenE (calculateSize env i w3) (\<lambda>w4. Inr (This i, w4)))
            else Inr (This i, w3)))"

text \<open>The callback \<^verbatim>\<open>function(){ self._calculateSize(); }\<close> of the \<open>k\<close>-th
  pending timer runs (lines 209-211).\<close>

definition fire_timer :: "env \<Rightarrow> nat \<Rightarrow> world \<Rightarrow> error + world" where
  "fire_timer env k w =
     (if k < length (timers w)
      then calculateSize env (snd (timers w ! k))
             (w\<lparr>timers := take k (timers w) @ drop (Suc k) (timers w)\<rparr>)
      else Inr w)"

text \<open>Lines 229-235 of \<^verbatim>\<open>close\<close>, before the test of \<^verbatim>\<open>disposable\<close>.
  Assigning \<^verbatim>\<open>undefined\<close> to \<^verbatim>\<open>onscroll\<close> leaves \<^verbatim>\<open>null\<close> there.\<close>

definition close_steps :: "nat \<Rightarrow> world \<Rightarrow> error + world" where
  "close_steps i w =
     (let w1 = upd_popup i (\<lambda>p. p\<lparr>isClosed := Some True\<rparr>) w
      in thenE (if truthy (mask_flag (popups w1 i))
                then thenE (deref (targetEl (popups w1 i))) (\<lambda>t.
                       Inr (upd_el t (\<lambda>x. x\<lparr>onscroll :=
                              (case scrollEvent (popups w1 i) of None \<Rightarrow> Null | Some h \<Rightarrow> h)\<rparr>) w1))
                else Inr w1) (\<lambda>w2.
         thenE (deref (popupEl (popups w2 i))) (\<lambda>pE.
           Inr (set_style pE (\<lambda>s. s\<lparr>s_display := Keyword ''none''\<rparr>) w2))))"

text \<open>
  \<^verbatim>\<open>destroy\<close> and \<^verbatim>\<open>close\<close> call each other. The \<^verbatim>\<open>this.close()\<close> of
  line 273 runs with \<^verbatim>\<open>disposable\<close> just set to false, so it is lines 229-235
  followed by \<^verbatim>\<open>return this\<close>: \<open>close_steps\<close>. Lemma \<open>close_not_disposable\<close>
  below states that \<open>close\<close> is nothing else there.
\<close>

definition destroy :: "env \<Rightarrow> nat \<Rightarrow> world \<Rightarrow> error + world" where
  "destroy env i w =
     thenE (if \<not> truthy (isClosed (popups w i))
            then close_steps i (upd_popup i (\<lambda>p. p\<lparr>disposable := Some False\<rparr>) w)
            else Inr w) (\<lambda>w1.
       let (f1, w2) = new_fn w1
       in thenE (removeEvent env (containerEl (popups w2 i)) ''click touchstart''
                   (OnContainer f1 i) w2) (\<lambda>w3.
          thenE (if truthy (mask_flag (popups w3 i))
                 then (let (f2, w4) = new_fn w3
                       in removeEvent env (maskEl (popups w4 i)) ''click touchstart''
                            (OnMask f2 i) w4)
                 else Inr w3) (\<lambda>w5.
          thenE (deref (targetEl (popups w5 i))) (\<lambda>t.
            let w6 = set_style t (\<lambda>s. s\<lparr>s_position := Blank\<rparr>) w5;
                w7 = upd_popup i (\<lambda>p. p\<lparr>targetEl := None, disposable := None,
                       mask_flag := None\<rparr>) w6
            in thenE (deref (popupEl (popups w7 i))) (\<lambda>pE.
               thenE (deref (parentNode (elems w7 pE))) (\<lambda>par.
               thenE (removeChild par pE w7) (\<lambda>w8.
                 Inr (upd_popup i (\<lambda>p. p\<lparr>popupEl := None\<rparr>) w8))))))))"

definition close :: "env \<Rightarrow> nat \<Rightarrow> world \<Rightarrow> error + ret \<times> world" where
  "close env i w =
     thenE (close_steps i w) (\<lambda>w1.
       if truthy (disposable (popups w1 i))
       then thenE (destroy env i w1) (\<lambda>w2. Inr (RetTrue, w2))
       else Inr (This i, w1))"

definition refresh :: "env \<Rightarrow> nat \<Rightarrow> world \<Rightarrow> error + ret \<times> world" where
  "refresh env i w = thenE (calculateSize env i w) (\<lambda>w1. Inr (This i, w1))"

text \<open>A caller's sequence of \<^verbatim>\<open>open()\<close> and \<^verbatim>\<open>close()\<close> calls on one
  instance; it stops at the first call that raises.\<close>

datatype call = Open | Close

fun run :: "env \<Rightarrow> nat \<Rightarrow> call list \<Rightarrow> world \<Rightarrow> error + world" where
  "run env i [] w = Inr w"
| "run env i (Open # cs) w = thenE (open_popup env i w) (\<lambda>(r, w'). run env i cs w')"
| "run env i (Close # cs) w = thenE (close env i w) (\<lambda>(r, w'). run env i cs w')"

section \<open>The presets alert, confirm and prompt (lines 327-522)\<close>

text \<open>The configuration object of a preset; an absent property is \<open>None\<close>.\<close>

record params =
  p_txt :: string
  p_okTxt :: "string option"
  p_cancelTxt :: "string option"
  p_placeholder :: "string option"
  p_mask :: "bool option"
  p_closeOnMask :: "bool option"
  p_autoSize :: "bool option"
  p_delayCalculate :: "int option"
  p_okCallback :: "nat option"
  p_cancelCallback :: "nat option"

text \<open>
  The arguments of a preset: a configuration object, or the positional form
  \<open>Pos txt a1 a2\<close>, where \<open>a1\<close> is \<open>Some f\<close> exactly when
  \<^verbatim>\<open>arguments[1]\<close> is a function \<open>f\<close>, and \<open>a2\<close> is \<^verbatim>\<open>arguments[2]\<close>.
\<close>

datatype args = Obj params | Pos string "nat option" "nat option"

text \<open>The default labels, as the UTF-8 bytes of the source's string literals.\<close>

definition okTxt_default :: string where
  "okTxt_default = [CHR 0xE7, CHR 0xA1, CHR 0xAE, CHR 0xE5, CHR 0xAE, CHR 0x9A]"

definition cancelTxt_default :: string where
  "cancelTxt_default = [CHR 0xE5, CHR 0x8F, CHR 0x96, CHR 0xE6, CHR 0xB6, CHR 0x88]"

definition placeholder_default :: string where
  "placeholder_default =
     [CHR 0xE8, CHR 0xAF, CHR 0xB7, CHR 0xE8, CHR 0xBE, CHR 0x93, CHR 0xE5, CHR 0x85, CHR 0xA5]"

text \<open>\<^verbatim>\<open>x || d\<close> for a string property \<open>x\<close>: absent and empty are falsy.\<close>

definition or_default :: "string option \<Rightarrow> string \<Rightarrow> string" where
  "or_default x d = (case x of None \<Rightarrow> d | Some s \<Rightarrow> if s = [] then d else s)"

text \<open>The assignments to the instance that the three presets share (lines 333-336,
  402-405, 479-482).\<close>

definition preset_flags :: "nat \<Rightarrow> params \<Rightarrow> world \<Rightarrow> world" where
  "preset_flags i p w =
     upd_popup i (\<lambda>q. q\<lparr>
       mask_flag := Some (case p_mask p of None \<Rightarrow> True | Some b \<Rightarrow> b),
       closeOnMask := (case p_closeOnMask p of None \<Rightarrow> False | Some b \<Rightarrow> b),
       autoSize := (case p_autoSize p of None \<Rightarrow> True | Some b \<Rightarrow> b),
       delayCalculate := p_delayCalculate p\<rparr>) w"

definition alert_content :: "string \<Rightarrow> string \<Rightarrow> string" where
  \<open>alert_content txt okTxt =
     ''<p class="alert-content">'' @ txt @ ''</p><a class="alert-ok popup-ok">'' @ okTxt @ ''</a>''\<close>

definition alert :: "env \<Rightarrow> nat \<Rightarrow> args \<Rightarrow> world \<Rightarrow> error + ret \<times> world" where
  "alert env i a w =
     (let (txt, okTxt, w1) =
            (case a of
               Obj p \<Rightarrow> (p_txt p, or_default (p_okTxt p) okTxt_default,
                          upd_events (\<lambda>ev. ev\<lparr>okCallback := p_okCallback p\<rparr>) (preset_flags i p w))
             | Pos t (Some f) a2 \<Rightarrow>
                 (t, okTxt_default, upd_events (\<lambda>ev. ev\<lparr>okCallback := Some f\<rparr>) w)
             | Pos t None a2 \<Rightarrow> (t, okTxt_default, w));
          w2 = upd_popup i (\<lambda>q. q\<lparr>prefixClass := Some ''alert-''\<rparr>) w1
      in thenE (createDOM i (alert_content txt okTxt) w2) (\<lambda>w3.
         thenE (bindEvents env i w3) (\<lambda>w4.
         thenE (open_popup env i w4) (\<lambda>(r, w5). Inr (This i, w5)))))"

definition confirm_content :: "string \<Rightarrow> string \<Rightarrow> string \<Rightarrow> string" where
  \<open>confirm_content txt okTxt cancelTxt =
     ''<p class="confirm-content">'' @ txt @ ''</p><a class="confirm-ok popup-ok">'' @ okTxt
       @ ''</a><a class="confirm-cancel popup-cancel">'' @ cancelTxt @ ''</a>''\<close>

definition confirm :: "env \<Rightarrow> nat \<Rightarrow> args \<Rightarrow> world \<Rightarrow> error + ret \<times> world" where
  "confirm env i a w =
     (let (txt, okTxt, cancelTxt, w1) =
            (case a of
               Obj p \<Rightarrow> (p_txt p, or_default (p_okTxt p) okTxt_default,
                          or_default (p_cancelTxt p) cancelTxt_default,
                          upd_events (\<lambda>ev. ev\<lparr>cancelCallback := p_cancelCallback p\<rparr>)
                            (upd_events (\<lambda>ev. ev\<lparr>okCallback := p_okCallback p\<rparr>)
                               (preset_flags i p w)))
             | Pos t (Some f) a2 \<Rightarrow>
                 (t, okTxt_default, cancelTxt_default,
                  upd_events (\<lambda>ev. ev\<lparr>cancelCallback := a2\<rparr>)
                    (upd_events (\<lambda>ev. ev\<lparr>okCallback := Some f\<rparr>) w))
             | Pos t None a2 \<Rightarrow> (t, okTxt_default, cancelTxt_default, w));
          w2 = upd_popup i (\<lambda>q. q\<lparr>prefixClass := Some ''confirm-''\<rparr>) w1
      in thenE (createDOM i (confirm_content txt okTxt cancelTxt) w2) (\<lambda>w3.
         thenE (bindEvents env i w3) (\<lambda>w4.
         thenE (open_popup env i w4) (\<lambda>(r, w5). Inr (This i, w5)))))"

definition prompt_content :: "string \<Rightarrow> string \<Rightarrow> string \<Rightarrow> string \<Rightarrow> string" where
  \<open>prompt_content txt placeholder okTxt cancelTxt =
     ''<p class="prompot-content">'' @ txt
       @ ''</p><input class="prompot-input" type="text" placeholder='' @ placeholder
       @ ''><a class="prompot-ok popup-ok">'' @ okTxt
       @ ''</a><a class="prompot-cancel popup-cancel">'' @ cancelTxt @ ''</a>''\<close>

definition prompt :: "env \<Rightarrow> nat \<Rightarrow> args \<Rightarrow> world \<Rightarrow> error + ret \<times> world" where
  "prompt env i a w =
     (let (txt, okTxt, cancelTxt, placeholder, w1) =
            (case a of
               Obj p \<Rightarrow> (p_txt p, or_default (p_okTxt p) okTxt_default,
                          or_default (p_cancelTxt p) cancelTxt_default,
                          or_default (p_placeholder p) placeholder_default,
                          upd_events (\<lambda>ev. ev\<lparr>cancelCallback := p_cancelCallback p\<rparr>)
                            (upd_events (\<lambda>ev. ev\<lparr>okCallback := p_okCallback p\<rparr>)
                               (preset_flags i p w)))
             | Pos t (Some f) a2 \<Rightarrow>
                 (t, okTxt_default, cancelTxt_default, placeholder_default,
                  upd_events (\<lambda>ev. ev\<lparr>cancelCallback := a2\<rparr>)
                    (upd_events (\<lambda>ev. ev\<lparr>okCallback := Some f\<rparr>) w))
             | Pos t None a2 \<Rightarrow>
                 (t, okTxt_default, cancelTxt_default, placeholder_default, w));
          w2 = upd_popup i (\<lambda>q. q\<lparr>prefixClass := Some ''prompot-''\<rparr>) w1
      in thenE (createDOM i (prompt_content txt placeholder okTxt cancelTxt) w2) (\<lambda>w3.
         thenE (bindEvents env i w3) (\<lambda>w4.
         thenE (querySelector env w4 (Some (containerEl (popups w4 i))) ''.prompot-ok'') (\<lambda>okEl.
         thenE (querySelector env w4 (Some (containerEl (popups w4 i))) ''.prompot-input'')
           (\<lambda>inputEl.
         let (f, w5) = new_fn w4
         in thenE (addEvent env okEl ''click touchstart'' (PromptOk f i inputEl) w5) (\<lambda>w6.
            thenE (open_popup env i w6) (\<lambda>(r, w7).
            thenE (deref inputEl) (\<lambda>inp.
              Inr (This i, w7\<lparr>activeElement := Some inp\<rparr>)))))))))"

section \<open>A page and a browser to run the code on\<close>

definition no_events :: events where
  "no_events = \<lparr>beforeClose = None, afterClose = None, okCallback = None,
     cancelCallback = None\<rparr>"

text \<open>A page with the body (element 0) and the root element (element 1), no popup
  yet. The body has a scroll handler of the page's own (function 11) and is scrolled
  to offset 40.\<close>

definition page :: world where
  "page = \<lparr>elems = (\<lambda>e. new_div)(0 := new_div\<lparr>onscroll := PageFn 11, scrollTop := 40\<rparr>),
     next_el = 2, popups = (\<lambda>i. new_popup None),
     next_popup = 0, eventsList = no_events, next_fn = 0, timers = [],
     activeElement = None\<rparr>"

text \<open>
  A browser whose layout gives every element the offset box \<open>cw \<times> ch\<close> and the
  client box \<open>vw \<times> vh\<close>, and where \<open>found sel\<close> is the first element of the
  document matching \<open>sel\<close>. A query below an element finds, for the selectors of
  \<^verbatim>\<open>prompt\<close>, the children the markup of \<^verbatim>\<open>prompt\<close> gives the inner
  element (elements 100 and 101), and nothing otherwise.
\<close>

definition browser :: "(string \<Rightarrow> nat option) \<Rightarrow> int \<Rightarrow> int \<Rightarrow> int \<Rightarrow> int \<Rightarrow> env" where
  "browser found cw ch vw vh =
     \<lparr>rootQuerySelector = (\<lambda>w r sel.
          case r of
            None \<Rightarrow> Inr (found sel)
          | Some e \<Rightarrow> Inr (if sel = ''.prompot-ok'' then Some 100
                           else if sel = ''.prompot-input'' then Some 101 else None)),
      offsetWidth = (\<lambda>w e. cw), offsetHeight = (\<lambda>w e. ch),
      clientWidth = (\<lambda>w e. vw), clientHeight = (\<lambda>w e. vh),
      eventStream = True\<rparr>"

text \<open>Two page states that differ at most in the styles and the listeners of their
  elements and in the count of function objects made.\<close>

definition cosmetic :: "world \<Rightarrow> world \<Rightarrow> bool" where
  "cosmetic w w' = (popups w' = popups w \<and> eventsList w' = eventsList w \<and> timers w' = timers w
     \<and> next_el w' = next_el w \<and> next_popup w' = next_popup w
     \<and> activeElement w' = activeElement w
     \<and> (\<forall>e. className (elems w' e) = className (elems w e)
            \<and> parentNode (elems w' e) = parentNode (elems w e)
            \<and> childNodes (elems w' e) = childNodes (elems w e)
            \<and> innerHTML (elems w' e) = innerHTML (elems w e)
            \<and> onscroll (elems w' e) = onscroll (elems w e)
            \<and> scrollTop (elems w' e) = scrollTop (elems w e)))"

definition same_styles :: "world \<Rightarrow> world \<Rightarrow> bool" where
  "same_styles w w' = (\<forall>e. style (elems w' e) = style (elems w e))"

text \<open>Instance \<open>i\<close> has its subtree, built by \<^verbatim>\<open>_createDOM\<close> on target \<open>t\<close>
  from the five elements \<open>n\<close>, ..., \<open>n + 4\<close>, the wrapper attached to the target.\<close>

definition built :: "world \<Rightarrow> nat \<Rightarrow> nat \<Rightarrow> nat \<Rightarrow> bool" where
  "built w i t n = (targetEl (popups w i) = Some t \<and> popupEl (popups w i) = Some n
     \<and> containerEl (popups w i) = Some (Suc n) \<and> innerEl (popups w i) = Some (Suc (Suc n))
     \<and> maskEl (popups w i) = Some (Suc (Suc (Suc n)))
     \<and> closeEl (popups w i) = Some (Suc (Suc (Suc (Suc n))))
     \<and> parentNode (elems w n) = Some t)"

section \<open>Example pages\<close>

definition found_test :: "string \<Rightarrow> nat option" where
  "found_test s = (if s = ''.test'' then Some 5 else None)"

text \<open>Content of 300 by 200 in a viewport of 1000 by 500, and content of 2000 by 1000
  in the same viewport.\<close>

definition content_fits :: env where
  "content_fits = browser found_test 300 200 1000 500"

definition content_wide :: env where
  "content_wide = browser found_test 2000 1000 1000 500"

definition both_hooks :: options where
  "both_hooks = \<lparr>o_content = ''hi'', o_prefixClass = None, o_closeOnMask = None,
     o_autoSize = None, o_delayCalculate = None, o_beforeClose = Some 7,
     o_afterClose = Some 8\<rparr>"

text \<open>The page state a call leaves, and the state it started from if it raised.\<close>

definition world_of :: "error + 'a \<times> world \<Rightarrow> world \<Rightarrow> world" where
  "world_of r w = (case r of Inl e \<Rightarrow> w | Inr (x, w') \<Rightarrow> w')"

text \<open>\<open>page0\<close>: the page after \<^verbatim>\<open>Popup()\<close>, whose instance is 0.
  \<open>created\<close>: after \<^verbatim>\<open>create(both_hooks)\<close> on that instance.
  \<open>alerted\<close>: after \<^verbatim>\<open>alert('hello')\<close> on that instance instead.\<close>

definition page0 :: world where
  "page0 = world_of (Popup content_fits None page) page"

definition created :: world where
  "created = world_of (create content_fits 0 both_hooks page0) page0"

definition alerted :: world where
  "alerted = world_of (alert content_fits 0 (Pos ''hello'' None None) page0) page0"

text \<open>\<open>px_le c b\<close>: the style value \<open>c\<close> is a length in pixels, of at most
  \<open>b\<close>.\<close>

definition px_le :: "css \<Rightarrow> int \<Rightarrow> bool" where
  "px_le c b = (case c of Px r \<Rightarrow> r \<le> of_int b | Blank \<Rightarrow> False | Keyword k \<Rightarrow> False
     | Number n \<Rightarrow> False)"

text \<open>\<open>test_popup\<close> and \<open>stray_popup\<close>: the page after \<^verbatim>\<open>Popup('.test')\<close>
  and after \<^verbatim>\<open>Popup('.nothing')\<close>. \<open>opened_wide\<close>: the page \<open>created\<close> after
  \<^verbatim>\<open>open()\<close> with the wide content. \<open>destroyed\<close>: the page \<open>created\<close> after
  \<^verbatim>\<open>destroy()\<close>.\<close>

definition test_popup :: world where
  "test_popup = world_of (Popup content_fits (Some ''.test'') page) page"

definition stray_popup :: world where
  "stray_popup = world_of (Popup content_fits (Some ''.nothing'') page) page"

definition opened_wide :: world where
  "opened_wide = world_of (open_popup content_wide 0 created) created"


text \<open>Reading \<^verbatim>\<open>this._eventsList\<close> on instance \<open>i\<close>: no instance has a property
  of that name of its own, so the read goes to the prototype's object, whichever the
  instance.\<close>

definition this_eventsList :: "world \<Rightarrow> nat \<Rightarrow> events" where
  "this_eventsList w i = eventsList w"

text \<open>\<open>first_alert\<close>: the page after \<^verbatim>\<open>Popup().alert('first', f7)\<close>;
  \<open>second_popup\<close>: after a further \<^verbatim>\<open>Popup()\<close>, whose instance is 1.\<close>

definition first_alert :: world where
  "first_alert = world_of (alert content_fits 0 (Pos ''first'' (Some 7) None) page0) page0"

definition second_popup :: world where
  "second_popup = world_of (Popup content_fits None first_alert) first_alert"

definition second_confirm :: world where
  "second_confirm = world_of
     (confirm content_fits 1 (Pos ''second'' (Some 9) (Some 10)) second_popup) second_popup"

text \<open>
  The states of a masked instance between its first \<^verbatim>\<open>open()\<close> and its
  destruction: the subtree is there, the saved handler is \<open>h0\<close>, and the target's
  scroll slot holds \<open>h0\<close> when the instance is closed and the lock otherwise.
\<close>

definition live :: "handler \<Rightarrow> int \<Rightarrow> nat \<Rightarrow> nat \<Rightarrow> bool option \<Rightarrow> world \<Rightarrow> bool" where
  "live h0 y0 t i d w =
     (targetEl (popups w i) = Some t
      \<and> (\<exists>pE par. popupEl (popups w i) = Some pE \<and> parentNode (elems w pE) = Some par)
      \<and> (\<exists>cE. containerEl (popups w i) = Some cE)
      \<and> (\<exists>iE. innerEl (popups w i) = Some iE)
      \<and> (\<exists>mE. maskEl (popups w i) = Some mE)
      \<and> mask_flag (popups w i) = Some True \<and> disposable (popups w i) = d
      \<and> scrollEvent (popups w i) = Some h0 \<and> scrollTop (elems w t) = y0
      \<and> onscroll (elems w t) =
          (if isClosed (popups w i) = Some True then h0 else ScrollLock i y0))"

text \<open>\<open>ask\<close>: a configuration object for \<^verbatim>\<open>prompt\<close>; \<open>prompted\<close> is the page
  after that prompt on instance 0. \<open>slow_alert\<close>: a configuration object for
  \<^verbatim>\<open>alert\<close> with \<^verbatim>\<open>delayCalculate: 200\<close>; \<open>delayed\<close> is the page after
  that alert on instance 0, \<open>delayed_closed\<close> the page after its \<^verbatim>\<open>close()\<close>.
  \<open>slow_hooks\<close>: options for \<^verbatim>\<open>create\<close> with the same delay, and the pages after
  \<^verbatim>\<open>create\<close>, \<^verbatim>\<open>open()\<close> and \<^verbatim>\<open>close()\<close> on instance 0.\<close>

definition ask :: params where
  "ask = \<lparr>p_txt = ''y'', p_okTxt = Some ''ok'', p_cancelTxt = Some ''no'',
     p_placeholder = Some ''js'', p_mask = None, p_closeOnMask = None, p_autoSize = None,
     p_delayCalculate = None, p_okCallback = None, p_cancelCallback = None\<rparr>"

definition slow_alert :: params where
  "slow_alert = \<lparr>p_txt = ''wait'', p_okTxt = None, p_cancelTxt = None,
     p_placeholder = None, p_mask = None, p_closeOnMask = None, p_autoSize = None,
     p_delayCalculate = Some 200, p_okCallback = None, p_cancelCallback = None\<rparr>"

definition prompted :: world where
  "prompted = world_of (prompt content_fits 0 (Obj ask) page0) page0"

definition delayed :: world where
  "delayed = world_of (alert content_fits 0 (Obj slow_alert) page0) page0"

definition delayed_closed :: world where
  "delayed_closed = world_of (close content_fits 0 delayed) delayed"

definition slow_hooks :: options where
  "slow_hooks = \<lparr>o_content = ''hi'', o_prefixClass = None, o_closeOnMask = None,
     o_autoSize = None, o_delayCalculate = Some 200, o_beforeClose = None,
     o_afterClose = None\<rparr>"

definition created_slow :: world where
  "created_slow = world_of (create content_fits 0 slow_hooks page0) page0"

definition opened_slow :: world where
  "opened_slow = world_of (open_popup content_fits 0 created_slow) created_slow"

definition closed_slow :: world where
  "closed_slow = world_of (close content_fits 0 opened_slow) opened_slow"

section \<open>Basic facts\<close>

lemma thenE_Inr [simp]: "thenE (Inr x) f = f x"
  by (simp add: thenE_def)

lemma thenE_Inl [simp]: "thenE (Inl e) f = Inl e"
  by (simp add: thenE_def)

lemma deref_Some [simp]: "deref (Some e) = Inr e"
  by (simp add: deref_def)

lemma deref_None [simp]: "deref None = Inl TypeError"
  by (simp add: deref_def)

lemma truthy_simps [simp]: "truthy None = False" "truthy (Some b) = b"
  by (simp_all add: truthy_def)

lemma upd_el_fields [simp]:
  "popups (upd_el e f w) = popups w" "eventsList (upd_el e f w) = eventsList w"
  "timers (upd_el e f w) = timers w" "next_el (upd_el e f w) = next_el w"
  "next_fn (upd_el e f w) = next_fn w" "next_popup (upd_el e f w) = next_popup w"
  "activeElement (upd_el e f w) = activeElement w"
  "elems (upd_el e f w) = (elems w)(e := f (elems w e))"
  by (simp_all add: upd_el_def)

lemma set_style_fields [simp]:
  "popups (set_style e f w) = popups w" "eventsList (set_style e f w) = eventsList w"
  "timers (set_style e f w) = timers w" "next_el (set_style e f w) = next_el w"
  "next_fn (set_style e f w) = next_fn w" "next_popup (set_style e f w) = next_popup w"
  "activeElement (set_style e f w) = activeElement w"
  by (simp_all add: set_style_def)

lemma set_style_elems [simp]:
  "className (elems (set_style e f w) x) = className (elems w x)"
  "parentNode (elems (set_style e f w) x) = parentNode (elems w x)"
  "childNodes (elems (set_style e f w) x) = childNodes (elems w x)"
  "innerHTML (elems (set_style e f w) x) = innerHTML (elems w x)"
  "onscroll (elems (set_style e f w) x) = onscroll (elems w x)"
  "scrollTop (elems (set_style e f w) x) = scrollTop (elems w x)"
  "listeners (elems (set_style e f w) x) = listeners (elems w x)"
  "style (elems (set_style e f w) x) = (if x = e then f (style (elems w e)) else style (elems w x))"
  by (simp_all add: set_style_def)

lemma unforced_fields [simp]:
  "popups (unforced e w) = popups w" "eventsList (unforced e w) = eventsList w"
  "timers (unforced e w) = timers w" "next_el (unforced e w) = next_el w"
  "next_fn (unforced e w) = next_fn w" "next_popup (unforced e w) = next_popup w"
  "activeElement (unforced e w) = activeElement w"
  by (simp_all add: unforced_def)

lemma unforced_elems [simp]:
  "className (elems (unforced e w) x) = className (elems w x)"
  "parentNode (elems (unforced e w) x) = parentNode (elems w x)"
  "childNodes (elems (unforced e w) x) = childNodes (elems w x)"
  "innerHTML (elems (unforced e w) x) = innerHTML (elems w x)"
  "onscroll (elems (unforced e w) x) = onscroll (elems w x)"
  "scrollTop (elems (unforced e w) x) = scrollTop (elems w x)"
  "listeners (elems (unforced e w) x) = listeners (elems w x)"
  "style (elems (unforced e w) x) =
     (if x = e then (style (elems w e))\<lparr>s_width := Blank, s_height := Blank\<rparr>
      else style (elems w x))"
  by (simp_all add: unforced_def)

lemma upd_popup_fields [simp]:
  "elems (upd_popup i f w) = elems w" "eventsList (upd_popup i f w) = eventsList w"
  "timers (upd_popup i f w) = timers w" "next_el (upd_popup i f w) = next_el w"
  "next_fn (upd_popup i f w) = next_fn w" "next_popup (upd_popup i f w) = next_popup w"
  "activeElement (upd_popup i f w) = activeElement w"
  "popups (upd_popup i f w) = (popups w)(i := f (popups w i))"
  by (simp_all add: upd_popup_def)

lemma upd_events_fields [simp]:
  "elems (upd_events f w) = elems w" "popups (upd_events f w) = popups w"
  "timers (upd_events f w) = timers w" "next_el (upd_events f w) = next_el w"
  "next_fn (upd_events f w) = next_fn w" "next_popup (upd_events f w) = next_popup w"
  "activeElement (upd_events f w) = activeElement w"
  "eventsList (upd_events f w) = f (eventsList w)"
  by (simp_all add: upd_events_def)

lemma addClass_fields [simp]:
  "popups (addClass e c w) = popups w" "eventsList (addClass e c w) = eventsList w"
  "timers (addClass e c w) = timers w" "next_el (addClass e c w) = next_el w"
  "next_fn (addClass e c w) = next_fn w" "next_popup (addClass e c w) = next_popup w"
  "activeElement (addClass e c w) = activeElement w"
  by (simp_all add: addClass_def)

lemma addClass_elems [simp]:
  "style (elems (addClass e c w) x) = style (elems w x)"
  "parentNode (elems (addClass e c w) x) = parentNode (elems w x)"
  "childNodes (elems (addClass e c w) x) = childNodes (elems w x)"
  "innerHTML (elems (addClass e c w) x) = innerHTML (elems w x)"
  "onscroll (elems (addClass e c w) x) = onscroll (elems w x)"
  "scrollTop (elems (addClass e c w) x) = scrollTop (elems w x)"
  "listeners (elems (addClass e c w) x) = listeners (elems w x)"
  by (simp_all add: addClass_def)

lemma addPrefixClass_fields [simp]:
  "popups (addPrefixClass i e c w) = popups w" "eventsList (addPrefixClass i e c w) = eventsList w"
  "timers (addPrefixClass i e c w) = timers w" "next_el (addPrefixClass i e c w) = next_el w"
  "next_fn (addPrefixClass i e c w) = next_fn w"
  "next_popup (addPrefixClass i e c w) = next_popup w"
  "activeElement (addPrefixClass i e c w) = activeElement w"
  by (simp_all add: addPrefixClass_def)

lemma addPrefixClass_elems [simp]:
  "style (elems (addPrefixClass i e c w) x) = style (elems w x)"
  "parentNode (elems (addPrefixClass i e c w) x) = parentNode (elems w x)"
  "childNodes (elems (addPrefixClass i e c w) x) = childNodes (elems w x)"
  "innerHTML (elems (addPrefixClass i e c w) x) = innerHTML (elems w x)"
  "onscroll (elems (addPrefixClass i e c w) x) = onscroll (elems w x)"
  "scrollTop (elems (addPrefixClass i e c w) x) = scrollTop (elems w x)"
  "listeners (elems (addPrefixClass i e c w) x) = listeners (elems w x)"
  by (simp_all add: addPrefixClass_def)

lemma appendChild_fields [simp]:
  "popups (appendChild p c w) = popups w" "eventsList (appendChild p c w) = eventsList w"
  "timers (appendChild p c w) = timers w" "next_el (appendChild p c w) = next_el w"
  "next_fn (appendChild p c w) = next_fn w" "next_popup (appendChild p c w) = next_popup w"
  "activeElement (appendChild p c w) = activeElement w"
  by (simp_all add: appendChild_def Let_def split: option.splits)

lemma appendChild_elems [simp]:
  "style (elems (appendChild p c w) x) = style (elems w x)"
  "className (elems (appendChild p c w) x) = className (elems w x)"
  "innerHTML (elems (appendChild p c w) x) = innerHTML (elems w x)"
  "onscroll (elems (appendChild p c w) x) = onscroll (elems w x)"
  "scrollTop (elems (appendChild p c w) x) = scrollTop (elems w x)"
  "listeners (elems (appendChild p c w) x) = listeners (elems w x)"
  "parentNode (elems (appendChild p c w) x) = (if x = c then Some p else parentNode (elems w x))"
  by (simp_all add: appendChild_def Let_def split: option.splits)

lemma change_listener_fields [simp]:
  "popups (change_listener h e l w) = popups w" "eventsList (change_listener h e l w) = eventsList w"
  "timers (change_listener h e l w) = timers w" "next_el (change_listener h e l w) = next_el w"
  "next_fn (change_listener h e l w) = next_fn w"
  "next_popup (change_listener h e l w) = next_popup w"
  "activeElement (change_listener h e l w) = activeElement w"
  by (simp_all add: change_listener_def split: how.splits)

lemma change_listener_elems [simp]:
  "style (elems (change_listener h e l w) x) = style (elems w x)"
  "className (elems (change_listener h e l w) x) = className (elems w x)"
  "innerHTML (elems (change_listener h e l w) x) = innerHTML (elems w x)"
  "onscroll (elems (change_listener h e l w) x) = onscroll (elems w x)"
  "scrollTop (elems (change_listener h e l w) x) = scrollTop (elems w x)"
  "parentNode (elems (change_listener h e l w) x) = parentNode (elems w x)"
  "childNodes (elems (change_listener h e l w) x) = childNodes (elems w x)"
  by (simp_all add: change_listener_def split: how.splits)


lemma new_fn_fields [simp]:
  "popups (snd (new_fn w)) = popups w" "eventsList (snd (new_fn w)) = eventsList w"
  "timers (snd (new_fn w)) = timers w" "next_el (snd (new_fn w)) = next_el w"
  "next_popup (snd (new_fn w)) = next_popup w" "elems (snd (new_fn w)) = elems w"
  "activeElement (snd (new_fn w)) = activeElement w"
  by (simp_all add: new_fn_def)

section \<open>What the operations leave alone\<close>

lemma cosmetic_refl [simp]: "cosmetic w w"
  by (simp add: cosmetic_def)

lemma cosmetic_trans: "cosmetic w w1 \<Longrightarrow> cosmetic w1 w2 \<Longrightarrow> cosmetic w w2"
  by (simp add: cosmetic_def)

lemma cosmetic_set_style [simp]: "cosmetic w (set_style e f w') = cosmetic w w'"
  by (simp add: cosmetic_def)

lemma cosmetic_unforced [simp]: "cosmetic w (unforced e w') = cosmetic w w'"
  by (simp add: cosmetic_def)

lemma cosmetic_change_listener [simp]: "cosmetic w (change_listener h e l w') = cosmetic w w'"
  by (simp add: cosmetic_def)

lemma cosmetic_new_fn [simp]: "cosmetic w (snd (new_fn w')) = cosmetic w w'"
  by (simp add: cosmetic_def)

lemma cosmetic_fold_listener:
  "cosmetic w (fold (\<lambda>t v. if b then change_listener h el (t, cb, c) v
                           else change_listener h el (''on'' @ t, cb, False) v) ts w')
     = cosmetic w w'"
  by (induction ts arbitrary: w') simp_all

lemma same_styles_fold_listener:
  "same_styles w (fold (\<lambda>t v. if b then change_listener h el (t, cb, c) v
                           else change_listener h el (''on'' @ t, cb, False) v) ts w')
     = same_styles w w'"
  by (induction ts arbitrary: w') (simp_all add: same_styles_def)

lemma eventHandler_effect:
  "\<exists>w'. eventHandler env (Some el) types cb c h w = Inr w' \<and> cosmetic w w'
     \<and> same_styles w w'"
  by (simp add: eventHandler_def cosmetic_fold_listener same_styles_fold_listener)
     (simp add: same_styles_def)

lemma eventHandler_null [simp]: "eventHandler env None types cb c h w = Inl TypeError"
  by (simp add: eventHandler_def)

lemma addEvent_effect:
  "\<exists>w'. addEvent env (Some el) types cb w = Inr w' \<and> cosmetic w w' \<and> same_styles w w'"
  by (simp add: addEvent_def eventHandler_effect)

lemma removeEvent_effect:
  "\<exists>w'. removeEvent env (Some el) types cb w = Inr w' \<and> cosmetic w w' \<and> same_styles w w'"
  by (simp add: removeEvent_def eventHandler_effect)

lemma bindEvents_effect:
  assumes "containerEl (popups w i) = Some cE" and "maskEl (popups w i) = Some mE"
  shows "\<exists>w'. bindEvents env i w = Inr w' \<and> cosmetic w w'"
proof -
  obtain f1 w1 where n1: "new_fn w = (f1, w1)"
    by (cases "new_fn w")
  then have c1: "cosmetic w w1"
    using cosmetic_new_fn [of w w] by simp
  obtain w2 where a2: "addEvent env (Some cE) ''click touchstart'' (OnContainer f1 i) w1 = Inr w2"
    and c2: "cosmetic w1 w2"
    using addEvent_effect by blast
  obtain f2 w3 where n3: "new_fn w2 = (f2, w3)"
    by (cases "new_fn w2")
  then have c3: "cosmetic w2 w3"
    using cosmetic_new_fn [of w2 w2] by simp
  obtain w4 where a4: "addEvent env (Some mE) ''click touchstart'' (OnMask f2 i) w3 = Inr w4"
    and c4: "cosmetic w3 w4"
    using addEvent_effect by blast
  have p1: "popups w1 = popups w" and p2: "popups w2 = popups w" and p3: "popups w3 = popups w"
    using c1 c2 c3 by (simp_all add: cosmetic_def)
  have "cosmetic w w2" "cosmetic w w4"
    using c1 c2 c3 c4 cosmetic_trans by blast+
  then show ?thesis
    using assms n1 a2 n3 a4 p1 p2 p3 by (simp add: bindEvents_def)
qed







lemma calculateSize_effect:
  assumes "innerEl (popups w i) = Some iE" and "containerEl (popups w i) = Some cE"
    and "targetEl (popups w i) = Some t" and "popupEl (popups w i) = Some pE"
  shows "\<exists>w'. calculateSize env i w = Inr w' \<and> cosmetic w w'"
  using assms by (simp add: calculateSize_def Let_def)


lemma Let_weak_cong: "s = t \<Longrightarrow> Let s f = Let t f"
  by simp

lemma thenE_weak_cong: "r = r' \<Longrightarrow> thenE r f = thenE r' f"
  by simp

lemma same_scrollEvent:
  "scrollEvent (p::popup) = v \<Longrightarrow> p\<lparr>isClosed := x, scrollEvent := v\<rparr> = p\<lparr>isClosed := x\<rparr>"
  by (cases p) simp

lemma createDOM_effect:
  assumes "targetEl (popups w i) = Some t"
  shows "\<exists>w'. createDOM i c w = Inr w'
    \<and> popups w' = (popups w)(i := (popups w i)\<lparr>popupEl := Some (next_el w),
          containerEl := Some (Suc (next_el w)), innerEl := Some (Suc (Suc (next_el w))),
          maskEl := Some (Suc (Suc (Suc (next_el w)))),
          closeEl := Some (Suc (Suc (Suc (Suc (next_el w)))))\<rparr>)
    \<and> eventsList w' = eventsList w \<and> timers w' = timers w \<and> next_fn w' = next_fn w
    \<and> next_popup w' = next_popup w \<and> activeElement w' = activeElement w
    \<and> next_el w' = next_el w + 5
    \<and> parentNode (elems w' (next_el w)) = Some t
    \<and> innerHTML (elems w' (Suc (Suc (next_el w)))) = c
    \<and> (\<forall>e. e < next_el w \<longrightarrow> onscroll (elems w' e) = onscroll (elems w e)
          \<and> scrollTop (elems w' e) = scrollTop (elems w e))
    \<and> listeners (elems w' (Suc (next_el w))) = []
    \<and> listeners (elems w' (Suc (Suc (Suc (next_el w))))) = []"
  using assms by (simp add: createDOM_def createElement_def Let_def new_div_def
      cong: Let_weak_cong thenE_weak_cong prod.case_cong_weak)

lemma open_popup_effect:
  assumes "targetEl (popups w i) = Some t" and "popupEl (popups w i) = Some pE"
    and "innerEl (popups w i) = Some iE" and "containerEl (popups w i) = Some cE"
  shows "\<exists>w'. open_popup env i w = Inr (This i, w')
    \<and> popups w' = (popups w)(i := (popups w i)\<lparr>isClosed := Some False,
          scrollEvent := (if truthy (mask_flag (popups w i)) \<and> scrollEvent (popups w i) = None
                          then Some (onscroll (elems w t)) else scrollEvent (popups w i))\<rparr>)
    \<and> eventsList w' = eventsList w \<and> next_el w' = next_el w \<and> next_popup w' = next_popup w
    \<and> activeElement w' = activeElement w
    \<and> timers w' = (if autoSize (popups w i)
                    then (case delayCalculate (popups w i) of
                            Some d \<Rightarrow> timers w @ [(d, i)] | None \<Rightarrow> timers w)
                    else timers w)
    \<and> (\<forall>e. onscroll (elems w' e) = (if e = t \<and> truthy (mask_flag (popups w i))
                                      then ScrollLock i (scrollTop (elems w t))
                                      else onscroll (elems w e))
          \<and> scrollTop (elems w' e) = scrollTop (elems w e)
          \<and> parentNode (elems w' e) = parentNode (elems w e)
          \<and> childNodes (elems w' e) = childNodes (elems w e)
          \<and> className (elems w' e) = className (elems w e)
          \<and> innerHTML (elems w' e) = innerHTML (elems w e))"
proof -
  define w2 where "w2 = (if truthy (mask_flag (popups w i))
     then upd_el t (\<lambda>x. x\<lparr>onscroll := ScrollLock i (scrollTop (elems w t))\<rparr>)
            (if scrollEvent (popups w i) = None
             then upd_popup i (\<lambda>p. p\<lparr>scrollEvent := Some (onscroll (elems w t))\<rparr>)
                    (upd_popup i (\<lambda>p. p\<lparr>isClosed := Some False\<rparr>) w)
             else upd_popup i (\<lambda>p. p\<lparr>isClosed := Some False\<rparr>) w)
     else upd_popup i (\<lambda>p. p\<lparr>isClosed := Some False\<rparr>) w)"
  define w3 where "w3 = set_style pE (\<lambda>s. s\<lparr>s_display := Blank\<rparr>) w2"
  have p3: "popups w3 = (popups w)(i := (popups w i)\<lparr>isClosed := Some False,
          scrollEvent := (if truthy (mask_flag (popups w i)) \<and> scrollEvent (popups w i) = None
                          then Some (onscroll (elems w t)) else scrollEvent (popups w i))\<rparr>)"
    by (cases "scrollEvent (popups w i)") (simp_all add: w3_def w2_def same_scrollEvent)
  have f3: "eventsList w3 = eventsList w" "next_el w3 = next_el w" "next_popup w3 = next_popup w"
    "activeElement w3 = activeElement w" "timers w3 = timers w"
    by (simp_all add: w3_def w2_def)
  have e3: "onscroll (elems w3 e) = (if e = t \<and> truthy (mask_flag (popups w i))
                                      then ScrollLock i (scrollTop (elems w t))
                                      else onscroll (elems w e))
          \<and> scrollTop (elems w3 e) = scrollTop (elems w e)
          \<and> parentNode (elems w3 e) = parentNode (elems w e)
          \<and> childNodes (elems w3 e) = childNodes (elems w e)
          \<and> className (elems w3 e) = className (elems w e)
          \<and> innerHTML (elems w3 e) = innerHTML (elems w e)" for e
    by (simp add: w3_def w2_def)
  have o: "open_popup env i w =
     (if autoSize (popups w3 i)
      then (case delayCalculate (popups w3 i) of
              Some d \<Rightarrow> Inr (This i, w3\<lparr>timers := timers w3 @ [(d, i)]\<rparr>)
            | None \<Rightarrow> thenE (calculateSize env i w3) (\<lambda>w4. Inr (This i, w4)))
      else Inr (This i, w3))"
  proof (cases "truthy (mask_flag (popups w i))")
    case True
    then show ?thesis
      using assms
      by (cases "scrollEvent (popups w i)")
         (simp_all add: open_popup_def Let_def w3_def w2_def split: option.splits)
  next
    case False
    then show ?thesis
      using assms by (simp add: open_popup_def Let_def w3_def w2_def split: option.splits)
  qed
  obtain w4 where c4: "calculateSize env i w3 = Inr w4" and k4: "cosmetic w3 w4"
    using calculateSize_effect [of w3 i iE cE t pE env] assms p3 by auto
  show ?thesis
  proof (cases "autoSize (popups w i)")
    case False
    then show ?thesis using o p3 f3 e3 by simp
  next
    case True
    show ?thesis
    proof (cases "delayCalculate (popups w i)")
      case (Some d)
      then show ?thesis using True o p3 f3 e3 by simp
    next
      case None
      then have "open_popup env i w = Inr (This i, w4)"
        using True o p3 c4 by simp
      moreover have "popups w4 = popups w3" "eventsList w4 = eventsList w3"
        "next_el w4 = next_el w3" "next_popup w4 = next_popup w3"
        "activeElement w4 = activeElement w3" "timers w4 = timers w3"
        using k4 by (simp_all add: cosmetic_def)
      moreover have "onscroll (elems w4 e) = onscroll (elems w3 e)
          \<and> scrollTop (elems w4 e) = scrollTop (elems w3 e)
          \<and> parentNode (elems w4 e) = parentNode (elems w3 e)
          \<and> childNodes (elems w4 e) = childNodes (elems w3 e)
          \<and> className (elems w4 e) = className (elems w3 e)
          \<and> innerHTML (elems w4 e) = innerHTML (elems w3 e)" for e
        using k4 by (simp add: cosmetic_def)
      ultimately show ?thesis using True None p3 f3 e3 by simp
    qed
  qed
qed


lemma close_steps_effect:
  assumes "targetEl (popups w i) = Some t" and "popupEl (popups w i) = Some pE"
  shows "\<exists>w'. close_steps i w = Inr w'
    \<and> popups w' = (popups w)(i := (popups w i)\<lparr>isClosed := Some True\<rparr>)
    \<and> eventsList w' = eventsList w \<and> timers w' = timers w \<and> next_el w' = next_el w
    \<and> next_fn w' = next_fn w \<and> next_popup w' = next_popup w
    \<and> activeElement w' = activeElement w
    \<and> (\<forall>e. onscroll (elems w' e) =
            (if e = t \<and> truthy (mask_flag (popups w i))
             then (case scrollEvent (popups w i) of None \<Rightarrow> Null | Some h \<Rightarrow> h)
             else onscroll (elems w e))
          \<and> style (elems w' e) =
            (if e = pE then (style (elems w e))\<lparr>s_display := Keyword ''none''\<rparr>
             else style (elems w e))
          \<and> scrollTop (elems w' e) = scrollTop (elems w e)
          \<and> parentNode (elems w' e) = parentNode (elems w e)
          \<and> childNodes (elems w' e) = childNodes (elems w e)
          \<and> className (elems w' e) = className (elems w e)
          \<and> innerHTML (elems w' e) = innerHTML (elems w e)
          \<and> listeners (elems w' e) = listeners (elems w e))"
  using assms by (simp add: close_steps_def Let_def)

lemma removeChild_effect:
  assumes "parentNode (elems w c) = Some p"
  shows "\<exists>w'. removeChild p c w = Inr w'
    \<and> popups w' = popups w \<and> eventsList w' = eventsList w \<and> timers w' = timers w
    \<and> next_el w' = next_el w \<and> next_fn w' = next_fn w \<and> next_popup w' = next_popup w
    \<and> activeElement w' = activeElement w
    \<and> (\<forall>e. parentNode (elems w' e) = (if e = c then None else parentNode (elems w e))
          \<and> style (elems w' e) = style (elems w e)
          \<and> onscroll (elems w' e) = onscroll (elems w e)
          \<and> scrollTop (elems w' e) = scrollTop (elems w e)
          \<and> className (elems w' e) = className (elems w e)
          \<and> innerHTML (elems w' e) = innerHTML (elems w e)
          \<and> listeners (elems w' e) = listeners (elems w e))"
  using assms by (simp add: removeChild_def)

text \<open>The second half of \<^verbatim>\<open>destroy\<close> (lines 275-290), on an instance that is
  closed.\<close>

lemma destroy_closed_effect:
  assumes "targetEl (popups w i) = Some t" and "popupEl (popups w i) = Some pE"
    and "containerEl (popups w i) = Some cE" and "maskEl (popups w i) = Some mE"
    and "parentNode (elems w pE) = Some par" and "truthy (isClosed (popups w i))"
  shows "\<exists>w'. destroy env i w = Inr w'
    \<and> popups w' = (popups w)(i := (popups w i)\<lparr>targetEl := None, disposable := None,
          mask_flag := None, popupEl := None\<rparr>)
    \<and> eventsList w' = eventsList w \<and> timers w' = timers w \<and> next_el w' = next_el w
    \<and> next_popup w' = next_popup w \<and> activeElement w' = activeElement w
    \<and> s_position (style (elems w' t)) = Blank
    \<and> parentNode (elems w' pE) = None
    \<and> (\<forall>e. onscroll (elems w' e) = onscroll (elems w e)
          \<and> scrollTop (elems w' e) = scrollTop (elems w e)
          \<and> className (elems w' e) = className (elems w e)
          \<and> innerHTML (elems w' e) = innerHTML (elems w e)
          \<and> s_display (style (elems w' e)) = s_display (style (elems w e)))"
proof -
  obtain f1 w2 where n2: "new_fn w = (f1, w2)"
    by (cases "new_fn w")
  then have c2: "cosmetic w w2" and s2: "elems w2 = elems w"
    using cosmetic_new_fn [of w w] new_fn_fields(6) [of w] by simp_all
  obtain w3 where r3: "removeEvent env (Some cE) ''click touchstart'' (OnContainer f1 i) w2 = Inr w3"
    and c3: "cosmetic w2 w3" and s3: "same_styles w2 w3"
    using removeEvent_effect by blast
  have p3: "popups w3 = popups w" and p2: "popups w2 = popups w"
    using c2 c3 by (simp_all add: cosmetic_def)
  obtain w5 where r5: "(if truthy (mask_flag (popups w3 i))
         then (let (f2, w4) = new_fn w3
               in removeEvent env (maskEl (popups w4 i)) ''click touchstart'' (OnMask f2 i) w4)
         else Inr w3) = Inr w5" and c5: "cosmetic w3 w5" and s5: "same_styles w3 w5"
  proof (cases "truthy (mask_flag (popups w3 i))")
    case False
    then show ?thesis using that [of w3] by (simp add: same_styles_def)
  next
    case True
    obtain f2 w4 where n4: "new_fn w3 = (f2, w4)"
      by (cases "new_fn w3")
    then have c4: "cosmetic w3 w4" and s4: "elems w4 = elems w3"
      using cosmetic_new_fn [of w3 w3] new_fn_fields(6) [of w3] by simp_all
    then have p4: "popups w4 = popups w"
      using p3 by (simp add: cosmetic_def)
    obtain w5 where "removeEvent env (Some mE) ''click touchstart'' (OnMask f2 i) w4 = Inr w5"
      and "cosmetic w4 w5" and "same_styles w4 w5"
      using removeEvent_effect by blast
    then show ?thesis
      using that [of w5] True n4 c4 s4 p4 assms cosmetic_trans
      by (auto simp: same_styles_def)
  qed
  have y5: "style (elems w5 e) = style (elems w e)" for e
    using s2 s3 s5 by (simp add: same_styles_def)
  have k5: "cosmetic w w5"
    using c2 c3 c5 cosmetic_trans by blast
  then have p5: "popups w5 = popups w"
    by (simp add: cosmetic_def)
  define w7 where "w7 = upd_popup i (\<lambda>p. p\<lparr>targetEl := None, disposable := None,
      mask_flag := None\<rparr>) (set_style t (\<lambda>s. s\<lparr>s_position := Blank\<rparr>) w5)"
  have par5: "parentNode (elems w5 pE) = Some par"
    using k5 assms by (simp add: cosmetic_def)
  then have par7: "parentNode (elems w7 pE) = Some par"
    by (simp add: w7_def)
  obtain w8 where r8: "removeChild par pE w7 = Inr w8"
    and f8: "popups w8 = popups w7" "eventsList w8 = eventsList w7" "timers w8 = timers w7"
      "next_el w8 = next_el w7" "next_popup w8 = next_popup w7"
      "activeElement w8 = activeElement w7"
    and e8: "\<forall>e. parentNode (elems w8 e) = (if e = pE then None else parentNode (elems w7 e))
          \<and> style (elems w8 e) = style (elems w7 e)
          \<and> onscroll (elems w8 e) = onscroll (elems w7 e)
          \<and> scrollTop (elems w8 e) = scrollTop (elems w7 e)
          \<and> className (elems w8 e) = className (elems w7 e)
          \<and> innerHTML (elems w8 e) = innerHTML (elems w7 e)
          \<and> listeners (elems w8 e) = listeners (elems w7 e)"
    using removeChild_effect [OF par7] by blast
  have d: "destroy env i w = Inr (upd_popup i (\<lambda>p. p\<lparr>popupEl := None\<rparr>) w8)"
    using assms n2 r3 r5 p2 p3 p5 par5 r8
    by (simp add: destroy_def Let_def w7_def [symmetric])
  have "popups (upd_popup i (\<lambda>p. p\<lparr>popupEl := None\<rparr>) w8)
      = (popups w)(i := (popups w i)\<lparr>targetEl := None, disposable := None,
          mask_flag := None, popupEl := None\<rparr>)"
    using f8 p5 by (simp add: w7_def)
  moreover have "eventsList w8 = eventsList w" "timers w8 = timers w" "next_el w8 = next_el w"
    "next_popup w8 = next_popup w" "activeElement w8 = activeElement w"
    using f8 k5 by (simp_all add: w7_def cosmetic_def)
  moreover have "s_position (style (elems w8 t)) = Blank"
    using e8 by (simp add: w7_def)
  moreover have "parentNode (elems w8 pE) = None"
    using e8 by simp
  moreover have "onscroll (elems w8 e) = onscroll (elems w e)
          \<and> scrollTop (elems w8 e) = scrollTop (elems w e)
          \<and> className (elems w8 e) = className (elems w e)
          \<and> innerHTML (elems w8 e) = innerHTML (elems w e)
          \<and> s_display (style (elems w8 e)) = s_display (style (elems w e))" for e
    using e8 k5 y5 by (simp add: w7_def cosmetic_def)
  ultimately show ?thesis
    using d by simp
qed

text \<open>On an instance that is not closed, \<^verbatim>\<open>destroy\<close> first runs the closing
  steps with \<^verbatim>\<open>disposable\<close> set to false, and then does what it does on a closed
  instance.\<close>

lemma destroy_not_closed:
  assumes "\<not> truthy (isClosed (popups w i))"
    and "close_steps i (upd_popup i (\<lambda>p. p\<lparr>disposable := Some False\<rparr>) w) = Inr w1"
    and "isClosed (popups w1 i) = Some True"
  shows "destroy env i w = destroy env i w1"
  using assms by (simp add: destroy_def)

lemma destroy_effect:
  assumes "targetEl (popups w i) = Some t" and "popupEl (popups w i) = Some pE"
    and "containerEl (popups w i) = Some cE" and "maskEl (popups w i) = Some mE"
    and "parentNode (elems w pE) = Some par"
  shows "\<exists>w'. destroy env i w = Inr w'
    \<and> targetEl (popups w' i) = None \<and> disposable (popups w' i) = None
    \<and> mask_flag (popups w' i) = None \<and> popupEl (popups w' i) = None
    \<and> containerEl (popups w' i) = Some cE \<and> maskEl (popups w' i) = Some mE
    \<and> innerEl (popups w' i) = innerEl (popups w i)
    \<and> closeEl (popups w' i) = closeEl (popups w i)
    \<and> scrollEvent (popups w' i) = scrollEvent (popups w i)
    \<and> isClosed (popups w' i) =
        (if truthy (isClosed (popups w i)) then isClosed (popups w i) else Some True)
    \<and> eventsList w' = eventsList w \<and> timers w' = timers w
    \<and> s_position (style (elems w' t)) = Blank
    \<and> parentNode (elems w' pE) = None
    \<and> s_display (style (elems w' pE)) =
        (if truthy (isClosed (popups w i)) then s_display (style (elems w pE))
         else Keyword ''none'')
    \<and> (\<forall>e. onscroll (elems w' e) =
            (if e = t \<and> truthy (mask_flag (popups w i)) \<and> \<not> truthy (isClosed (popups w i))
             then (case scrollEvent (popups w i) of None \<Rightarrow> Null | Some h \<Rightarrow> h)
             else onscroll (elems w e))
          \<and> scrollTop (elems w' e) = scrollTop (elems w e))"
proof (cases "truthy (isClosed (popups w i))")
  case True
  then show ?thesis
    using destroy_closed_effect [OF assms True, of env] assms by auto
next
  case False
  define w0 where "w0 = upd_popup i (\<lambda>p. p\<lparr>disposable := Some False\<rparr>) w"
  have a0: "targetEl (popups w0 i) = Some t" "popupEl (popups w0 i) = Some pE"
    using assms by (simp_all add: w0_def)
  obtain w1 where c1: "close_steps i w0 = Inr w1"
    and p1: "popups w1 = (popups w0)(i := (popups w0 i)\<lparr>isClosed := Some True\<rparr>)"
    and f1: "eventsList w1 = eventsList w0" "timers w1 = timers w0"
    and e1: "\<forall>e. onscroll (elems w1 e) =
            (if e = t \<and> truthy (mask_flag (popups w0 i))
             then (case scrollEvent (popups w0 i) of None \<Rightarrow> Null | Some h \<Rightarrow> h)
             else onscroll (elems w0 e))
          \<and> style (elems w1 e) =
            (if e = pE then (style (elems w0 e))\<lparr>s_display := Keyword ''none''\<rparr>
             else style (elems w0 e))
          \<and> scrollTop (elems w1 e) = scrollTop (elems w0 e)
          \<and> parentNode (elems w1 e) = parentNode (elems w0 e)
          \<and> childNodes (elems w1 e) = childNodes (elems w0 e)
          \<and> className (elems w1 e) = className (elems w0 e)
          \<and> innerHTML (elems w1 e) = innerHTML (elems w0 e)
          \<and> listeners (elems w1 e) = listeners (elems w0 e)"
    using close_steps_effect [OF a0] by blast
  have a1: "targetEl (popups w1 i) = Some t" "popupEl (popups w1 i) = Some pE"
    "containerEl (popups w1 i) = Some cE" "maskEl (popups w1 i) = Some mE"
    "parentNode (elems w1 pE) = Some par" "truthy (isClosed (popups w1 i))"
    using assms p1 e1 by (simp_all add: w0_def)
  have d: "destroy env i w = destroy env i w1"
    using destroy_not_closed [OF False] c1 p1 by (simp add: w0_def)
  show ?thesis
    using destroy_closed_effect [OF a1, of env] d False p1 f1 e1 assms
    by (auto simp: w0_def)
qed



lemma close_steps_disposable:
  "close_steps i w = Inr w1 \<Longrightarrow> disposable (popups w1 i) = disposable (popups w i)"
  by (auto simp: close_steps_def Let_def thenE_def deref_def split: if_splits option.splits)

lemma close_unfold:
  assumes "close_steps i w = Inr w1"
  shows "close env i w =
     (if truthy (disposable (popups w i))
      then thenE (destroy env i w1) (\<lambda>w2. Inr (RetTrue, w2))
      else Inr (This i, w1))"
  using assms close_steps_disposable [OF assms] by (simp add: close_def)

text \<open>The \<^verbatim>\<open>this.close()\<close> inside \<^verbatim>\<open>destroy\<close> (line 273), where
  \<^verbatim>\<open>disposable\<close> is false, is the closing steps and \<^verbatim>\<open>return this\<close>.\<close>

lemma close_not_disposable:
  assumes "disposable (popups w i) = Some False"
  shows "close env i w = thenE (close_steps i w) (\<lambda>w1. Inr (This i, w1))"
proof (cases "close_steps i w")
  case (Inl e)
  then show ?thesis by (simp add: close_def)
next
  case (Inr w1)
  then show ?thesis using assms close_unfold [OF Inr] by simp
qed
lemma close_effect:
  assumes "targetEl (popups w i) = Some t" and "popupEl (popups w i) = Some pE"
    and "containerEl (popups w i) = Some cE" and "maskEl (popups w i) = Some mE"
    and "parentNode (elems w pE) = Some par"
  shows "\<exists>r w'. close env i w = Inr (r, w')
    \<and> r = (if truthy (disposable (popups w i)) then RetTrue else This i)
    \<and> isClosed (popups w' i) = Some True
    \<and> scrollEvent (popups w' i) = scrollEvent (popups w i)
    \<and> innerEl (popups w' i) = innerEl (popups w i)
    \<and> containerEl (popups w' i) = Some cE \<and> maskEl (popups w' i) = Some mE
    \<and> targetEl (popups w' i) = (if truthy (disposable (popups w i)) then None else Some t)
    \<and> popupEl (popups w' i) = (if truthy (disposable (popups w i)) then None else Some pE)
    \<and> mask_flag (popups w' i) =
        (if truthy (disposable (popups w i)) then None else mask_flag (popups w i))
    \<and> disposable (popups w' i) =
        (if truthy (disposable (popups w i)) then None else disposable (popups w i))
    \<and> timers w' = timers w \<and> eventsList w' = eventsList w
    \<and> s_display (style (elems w' pE)) = Keyword ''none''
    \<and> parentNode (elems w' pE) =
        (if truthy (disposable (popups w i)) then None else Some par)
    \<and> (\<forall>e. onscroll (elems w' e) =
            (if e = t \<and> truthy (mask_flag (popups w i))
             then (case scrollEvent (popups w i) of None \<Rightarrow> Null | Some h \<Rightarrow> h)
             else onscroll (elems w e))
          \<and> scrollTop (elems w' e) = scrollTop (elems w e))
    \<and> (if truthy (disposable (popups w i))
        then (\<exists>w1. close_steps i w = Inr w1 \<and> destroy env i w1 = Inr w')
        else close_steps i w = Inr w')"
proof -
  obtain w1 where c1: "close_steps i w = Inr w1"
    and p1: "popups w1 = (popups w)(i := (popups w i)\<lparr>isClosed := Some True\<rparr>)"
    and f1: "eventsList w1 = eventsList w" "timers w1 = timers w"
    and e1: "\<forall>e. onscroll (elems w1 e) =
            (if e = t \<and> truthy (mask_flag (popups w i))
             then (case scrollEvent (popups w i) of None \<Rightarrow> Null | Some h \<Rightarrow> h)
             else onscroll (elems w e))
          \<and> style (elems w1 e) =
            (if e = pE then (style (elems w e))\<lparr>s_display := Keyword ''none''\<rparr>
             else style (elems w e))
          \<and> scrollTop (elems w1 e) = scrollTop (elems w e)
          \<and> parentNode (elems w1 e) = parentNode (elems w e)
          \<and> childNodes (elems w1 e) = childNodes (elems w e)
          \<and> className (elems w1 e) = className (elems w e)
          \<and> innerHTML (elems w1 e) = innerHTML (elems w e)
          \<and> listeners (elems w1 e) = listeners (elems w e)"
    using close_steps_effect [OF assms(1,2)] by blast
  have d1: "s_display (style (elems w1 pE)) = Keyword ''none''"
    using e1 by simp
  show ?thesis
  proof (cases "truthy (disposable (popups w i))")
    case False
    then show ?thesis
      using close_unfold [OF c1, of env] c1 p1 f1 e1 d1 assms by simp
  next
    case True
    have a1: "targetEl (popups w1 i) = Some t" "popupEl (popups w1 i) = Some pE"
      "containerEl (popups w1 i) = Some cE" "maskEl (popups w1 i) = Some mE"
      "parentNode (elems w1 pE) = Some par"
      using assms p1 e1 by simp_all
    have q1: "truthy (isClosed (popups w1 i))" "isClosed (popups w1 i) = Some True"
      "scrollEvent (popups w1 i) = scrollEvent (popups w i)"
      "innerEl (popups w1 i) = innerEl (popups w i)"
      using p1 by simp_all
    show ?thesis
      using destroy_effect [OF a1, of env]
      apply (elim exE)
      subgoal for w2
        apply (rule exI [of _ RetTrue])
        apply (rule exI [of _ w2])
        using True close_unfold [OF c1, of env] c1 q1 f1 e1 d1
        by simp
      done
  qed
qed



section \<open>What create and the presets set up\<close>

lemma build_and_open:
  assumes "targetEl (popups w i) = Some t"
  shows "\<exists>w'. thenE (createDOM i c w) (\<lambda>w3. thenE (bindEvents env i w3) (\<lambda>w4.
            thenE (open_popup env i w4) (\<lambda>(r, w5). Inr (This i, w5)))) = Inr (This i, w')
    \<and> built w' i t (next_el w)
    \<and> isClosed (popups w' i) = Some False
    \<and> disposable (popups w' i) = disposable (popups w i)
    \<and> mask_flag (popups w' i) = mask_flag (popups w i)
    \<and> prefixClass (popups w' i) = prefixClass (popups w i)
    \<and> autoSize (popups w' i) = autoSize (popups w i)
    \<and> delayCalculate (popups w' i) = delayCalculate (popups w i)
    \<and> (\<forall>j. j \<noteq> i \<longrightarrow> popups w' j = popups w j)
    \<and> eventsList w' = eventsList w \<and> next_popup w' = next_popup w
    \<and> timers w' = (if autoSize (popups w i)
                    then (case delayCalculate (popups w i) of
                            Some d \<Rightarrow> timers w @ [(d, i)] | None \<Rightarrow> timers w)
                    else timers w)
    \<and> innerHTML (elems w' (Suc (Suc (next_el w)))) = c"
proof -
  obtain w3 where c3: "createDOM i c w = Inr w3"
    and p3: "popups w3 = (popups w)(i := (popups w i)\<lparr>popupEl := Some (next_el w),
          containerEl := Some (Suc (next_el w)), innerEl := Some (Suc (Suc (next_el w))),
          maskEl := Some (Suc (Suc (Suc (next_el w)))),
          closeEl := Some (Suc (Suc (Suc (Suc (next_el w)))))\<rparr>)"
    and f3: "eventsList w3 = eventsList w" "timers w3 = timers w" "next_popup w3 = next_popup w"
    and e3: "parentNode (elems w3 (next_el w)) = Some t"
      "innerHTML (elems w3 (Suc (Suc (next_el w)))) = c"
    using createDOM_effect [OF assms, of c] by blast
  have a3: "containerEl (popups w3 i) = Some (Suc (next_el w))"
    "maskEl (popups w3 i) = Some (Suc (Suc (Suc (next_el w))))"
    using p3 by simp_all
  obtain w4 where c4: "bindEvents env i w3 = Inr w4" and k4: "cosmetic w3 w4"
    using bindEvents_effect [OF a3] by blast
  have p4: "popups w4 = popups w3" and f4: "eventsList w4 = eventsList w3"
    "timers w4 = timers w3" "next_popup w4 = next_popup w3"
    and e4: "parentNode (elems w4 (next_el w)) = Some t"
      "innerHTML (elems w4 (Suc (Suc (next_el w)))) = c"
    using k4 e3 by (simp_all add: cosmetic_def)
  have a4: "targetEl (popups w4 i) = Some t" "popupEl (popups w4 i) = Some (next_el w)"
    "innerEl (popups w4 i) = Some (Suc (Suc (next_el w)))"
    "containerEl (popups w4 i) = Some (Suc (next_el w))"
    using p4 p3 assms by simp_all
  obtain w5 where c5: "open_popup env i w4 = Inr (This i, w5)"
    and p5: "popups w5 = (popups w4)(i := (popups w4 i)\<lparr>isClosed := Some False,
          scrollEvent := (if truthy (mask_flag (popups w4 i)) \<and> scrollEvent (popups w4 i) = None
                          then Some (onscroll (elems w4 t)) else scrollEvent (popups w4 i))\<rparr>)"
    and f5: "eventsList w5 = eventsList w4" "next_popup w5 = next_popup w4"
      "timers w5 = (if autoSize (popups w4 i)
                    then (case delayCalculate (popups w4 i) of
                            Some d \<Rightarrow> timers w4 @ [(d, i)] | None \<Rightarrow> timers w4)
                    else timers w4)"
    and e5: "\<forall>e. parentNode (elems w5 e) = parentNode (elems w4 e)
          \<and> innerHTML (elems w5 e) = innerHTML (elems w4 e)"
    using open_popup_effect [OF a4, of env] by auto
  have "thenE (createDOM i c w) (\<lambda>w3. thenE (bindEvents env i w3) (\<lambda>w4.
            thenE (open_popup env i w4) (\<lambda>(r, w5). Inr (This i, w5)))) = Inr (This i, w5)"
    using c3 c4 c5 by simp
  moreover have "built w5 i t (next_el w)"
    using p5 p4 p3 assms e5 e4 by (simp add: built_def)
  ultimately show ?thesis
    using p5 p4 p3 f5 f4 f3 e5 e4 by (auto split: option.splits)
qed

lemma create_effect:
  assumes "targetEl (popups w i) = Some t"
  shows "\<exists>w'. create env i opts w = Inr (This i, w')
    \<and> built w' i t (next_el w)
    \<and> disposable (popups w' i) = Some False
    \<and> mask_flag (popups w' i) = mask_flag (popups w i)
    \<and> isClosed (popups w' i) = isClosed (popups w i)
    \<and> scrollEvent (popups w' i) = scrollEvent (popups w i)
    \<and> autoSize (popups w' i) = (case o_autoSize opts of None \<Rightarrow> True | Some b \<Rightarrow> b)
    \<and> delayCalculate (popups w' i) = o_delayCalculate opts
    \<and> eventsList w' = (eventsList w)\<lparr>beforeClose := o_afterClose opts\<rparr>
    \<and> timers w' = timers w
    \<and> (\<forall>e. e < next_el w \<longrightarrow> onscroll (elems w' e) = onscroll (elems w e)
          \<and> scrollTop (elems w' e) = scrollTop (elems w e))"
proof -
  define w4 where "w4 = upd_popup i (\<lambda>p. p\<lparr>disposable := Some False\<rparr>)
     (upd_events (\<lambda>ev. ev\<lparr>beforeClose := o_afterClose opts\<rparr>)
     (upd_events (\<lambda>ev. ev\<lparr>beforeClose := o_beforeClose opts\<rparr>)
     (upd_popup i (\<lambda>p. p\<lparr>
        prefixClass := Some (case o_prefixClass opts of None \<Rightarrow> [] | Some s \<Rightarrow> s),
        closeOnMask := (case o_closeOnMask opts of None \<Rightarrow> False | Some b \<Rightarrow> b),
        autoSize := (case o_autoSize opts of None \<Rightarrow> True | Some b \<Rightarrow> b),
        delayCalculate := o_delayCalculate opts\<rparr>) w)))"
  have a4: "targetEl (popups w4 i) = Some t"
    using assms by (simp add: w4_def)
  obtain w5 where c5: "createDOM i (o_content opts) w4 = Inr w5"
    and p5: "popups w5 = (popups w4)(i := (popups w4 i)\<lparr>popupEl := Some (next_el w4),
          containerEl := Some (Suc (next_el w4)), innerEl := Some (Suc (Suc (next_el w4))),
          maskEl := Some (Suc (Suc (Suc (next_el w4)))),
          closeEl := Some (Suc (Suc (Suc (Suc (next_el w4)))))\<rparr>)"
    and f5: "eventsList w5 = eventsList w4" "timers w5 = timers w4"
    and e5: "parentNode (elems w5 (next_el w4)) = Some t"
    and s5: "\<forall>e. e < next_el w4 \<longrightarrow> onscroll (elems w5 e) = onscroll (elems w4 e)
          \<and> scrollTop (elems w5 e) = scrollTop (elems w4 e)"
    using createDOM_effect [OF a4, of "o_content opts"] by blast
  have a5: "containerEl (popups w5 i) = Some (Suc (next_el w4))"
    "maskEl (popups w5 i) = Some (Suc (Suc (Suc (next_el w4))))"
    using p5 by simp_all
  obtain w6 where c6: "bindEvents env i w5 = Inr w6" and k6: "cosmetic w5 w6"
    using bindEvents_effect [OF a5] by blast
  have c: "create env i opts w = Inr (This i, w6)"
    using c5 c6 by (simp add: create_def Let_def w4_def [symmetric])
  have n4: "next_el w4 = next_el w"
    by (simp add: w4_def)
  have "built w6 i t (next_el w)"
    using k6 p5 e5 a4 n4 by (simp add: built_def cosmetic_def)
  moreover have "eventsList w6 = (eventsList w)\<lparr>beforeClose := o_afterClose opts\<rparr>"
    using k6 f5 by (simp add: cosmetic_def w4_def)
  moreover have "timers w6 = timers w"
    using k6 f5 by (simp add: cosmetic_def w4_def)
  moreover have "\<forall>e. e < next_el w \<longrightarrow> onscroll (elems w6 e) = onscroll (elems w e)
          \<and> scrollTop (elems w6 e) = scrollTop (elems w e)"
    using k6 s5 by (simp add: cosmetic_def w4_def)
  moreover have "popups w6 i = (popups w4 i)\<lparr>popupEl := Some (next_el w4),
          containerEl := Some (Suc (next_el w4)), innerEl := Some (Suc (Suc (next_el w4))),
          maskEl := Some (Suc (Suc (Suc (next_el w4)))),
          closeEl := Some (Suc (Suc (Suc (Suc (next_el w4)))))\<rparr>"
    using k6 p5 by (simp add: cosmetic_def)
  ultimately show ?thesis
    using c by (simp add: w4_def)
qed


lemma alert_effect:
  assumes "targetEl (popups w i) = Some t"
  shows "\<exists>w'. alert env i a w = Inr (This i, w')
    \<and> built w' i t (next_el w)
    \<and> isClosed (popups w' i) = Some False
    \<and> disposable (popups w' i) = disposable (popups w i)
    \<and> prefixClass (popups w' i) = Some ''alert-''
    \<and> autoSize (popups w' i) =
        (case a of Obj p \<Rightarrow> (case p_autoSize p of None \<Rightarrow> True | Some b \<Rightarrow> b)
         | Pos x f g \<Rightarrow> autoSize (popups w i))
    \<and> delayCalculate (popups w' i) =
        (case a of Obj p \<Rightarrow> p_delayCalculate p | Pos x f g \<Rightarrow> delayCalculate (popups w i))
    \<and> okCallback (eventsList w') =
        (case a of Obj p \<Rightarrow> p_okCallback p
         | Pos x f g \<Rightarrow> (case f of Some h \<Rightarrow> Some h | None \<Rightarrow> okCallback (eventsList w)))
    \<and> (\<forall>j. j \<noteq> i \<longrightarrow> popups w' j = popups w j)
    \<and> next_popup w' = next_popup w
    \<and> timers w' = (if autoSize (popups w' i)
                    then (case delayCalculate (popups w' i) of
                            Some d \<Rightarrow> timers w @ [(d, i)] | None \<Rightarrow> timers w)
                    else timers w)"
proof (cases a)
  case (Obj p)
  define w2 where "w2 = upd_popup i (\<lambda>q. q\<lparr>prefixClass := Some ''alert-''\<rparr>)
     (upd_events (\<lambda>ev. ev\<lparr>okCallback := p_okCallback p\<rparr>) (preset_flags i p w))"
  have a2: "targetEl (popups w2 i) = Some t"
    using assms by (simp add: w2_def preset_flags_def)
  have eq: "alert env i a w = thenE (createDOM i (alert_content (p_txt p)
            (or_default (p_okTxt p) okTxt_default)) w2) (\<lambda>w3.
          thenE (bindEvents env i w3) (\<lambda>w4.
          thenE (open_popup env i w4) (\<lambda>(r, w5). Inr (This i, w5))))"
    using Obj by (simp add: alert_def w2_def)
  show ?thesis
    using build_and_open [OF a2, of "alert_content (p_txt p)
            (or_default (p_okTxt p) okTxt_default)" env]
    apply (elim exE)
    subgoal for w'
      apply (rule exI [of _ w'])
      using eq Obj
      by (simp add: w2_def preset_flags_def split: option.splits)
    done
next
  case (Pos x f g)
  show ?thesis
  proof (cases f)
    case None
    define w2 where "w2 = upd_popup i (\<lambda>q. q\<lparr>prefixClass := Some ''alert-''\<rparr>) w"
    have a2: "targetEl (popups w2 i) = Some t"
      using assms by (simp add: w2_def)
    have eq: "alert env i a w = thenE (createDOM i (alert_content x okTxt_default) w2) (\<lambda>w3.
          thenE (bindEvents env i w3) (\<lambda>w4.
          thenE (open_popup env i w4) (\<lambda>(r, w5). Inr (This i, w5))))"
      using Pos None by (simp add: alert_def w2_def)
    show ?thesis
      using build_and_open [OF a2, of "alert_content x okTxt_default" env]
      apply (elim exE)
      subgoal for w'
        apply (rule exI [of _ w'])
        using eq Pos None
        by (simp add: w2_def split: option.splits)
      done
  next
    case (Some h)
    define w2 where "w2 = upd_popup i (\<lambda>q. q\<lparr>prefixClass := Some ''alert-''\<rparr>)
      (upd_events (\<lambda>ev. ev\<lparr>okCallback := Some h\<rparr>) w)"
    have a2: "targetEl (popups w2 i) = Some t"
      using assms by (simp add: w2_def)
    have eq: "alert env i a w = thenE (createDOM i (alert_content x okTxt_default) w2) (\<lambda>w3.
          thenE (bindEvents env i w3) (\<lambda>w4.
          thenE (open_popup env i w4) (\<lambda>(r, w5). Inr (This i, w5))))"
      using Pos Some by (simp add: alert_def w2_def)
    show ?thesis
      using build_and_open [OF a2, of "alert_content x okTxt_default" env]
      apply (elim exE)
      subgoal for w'
        apply (rule exI [of _ w'])
        using eq Pos Some
        by (simp add: w2_def split: option.splits)
      done
  qed
qed

lemma confirm_effect:
  assumes "targetEl (popups w i) = Some t"
  shows "\<exists>w'. confirm env i a w = Inr (This i, w')
    \<and> built w' i t (next_el w)
    \<and> isClosed (popups w' i) = Some False
    \<and> disposable (popups w' i) = disposable (popups w i)
    \<and> prefixClass (popups w' i) = Some ''confirm-''
    \<and> okCallback (eventsList w') =
        (case a of Obj p \<Rightarrow> p_okCallback p
         | Pos x f g \<Rightarrow> (case f of Some h \<Rightarrow> Some h | None \<Rightarrow> okCallback (eventsList w)))
    \<and> cancelCallback (eventsList w') =
        (case a of Obj p \<Rightarrow> p_cancelCallback p
         | Pos x f g \<Rightarrow> (case f of Some h \<Rightarrow> g | None \<Rightarrow> cancelCallback (eventsList w)))
    \<and> (\<forall>j. j \<noteq> i \<longrightarrow> popups w' j = popups w j)
    \<and> next_popup w' = next_popup w"
proof (cases a)
  case (Obj p)
  define w2 where "w2 = upd_popup i (\<lambda>q. q\<lparr>prefixClass := Some ''confirm-''\<rparr>)
     (upd_events (\<lambda>ev. ev\<lparr>cancelCallback := p_cancelCallback p\<rparr>)
     (upd_events (\<lambda>ev. ev\<lparr>okCallback := p_okCallback p\<rparr>) (preset_flags i p w)))"
  have a2: "targetEl (popups w2 i) = Some t"
    using assms by (simp add: w2_def preset_flags_def)
  have eq: "confirm env i a w = thenE (createDOM i (confirm_content (p_txt p)
            (or_default (p_okTxt p) okTxt_default)
            (or_default (p_cancelTxt p) cancelTxt_default)) w2) (\<lambda>w3.
          thenE (bindEvents env i w3) (\<lambda>w4.
          thenE (open_popup env i w4) (\<lambda>(r, w5). Inr (This i, w5))))"
    using Obj by (simp add: confirm_def w2_def)
  show ?thesis
    using build_and_open [OF a2, of "confirm_content (p_txt p)
            (or_default (p_okTxt p) okTxt_default)
            (or_default (p_cancelTxt p) cancelTxt_default)" env]
    apply (elim exE)
    subgoal for w'
      apply (rule exI [of _ w'])
      using eq Obj
      by (simp add: w2_def preset_flags_def split: option.splits)
    done
next
  case (Pos x f g)
  show ?thesis
  proof (cases f)
    case None
    define w2 where "w2 = upd_popup i (\<lambda>q. q\<lparr>prefixClass := Some ''confirm-''\<rparr>) w"
    have a2: "targetEl (popups w2 i) = Some t"
      using assms by (simp add: w2_def)
    have eq: "confirm env i a w =
        thenE (createDOM i (confirm_content x okTxt_default cancelTxt_default) w2) (\<lambda>w3.
          thenE (bindEvents env i w3) (\<lambda>w4.
          thenE (open_popup env i w4) (\<lambda>(r, w5). Inr (This i, w5))))"
      using Pos None by (simp add: confirm_def w2_def)
    show ?thesis
      using build_and_open [OF a2, of "confirm_content x okTxt_default cancelTxt_default" env]
      apply (elim exE)
      subgoal for w'
        apply (rule exI [of _ w'])
        using eq Pos None
        by (simp add: w2_def split: option.splits)
      done
  next
    case (Some h)
    define w2 where "w2 = upd_popup i (\<lambda>q. q\<lparr>prefixClass := Some ''confirm-''\<rparr>)
      (upd_events (\<lambda>ev. ev\<lparr>cancelCallback := g\<rparr>)
      (upd_events (\<lambda>ev. ev\<lparr>okCallback := Some h\<rparr>) w))"
    have a2: "targetEl (popups w2 i) = Some t"
      using assms by (simp add: w2_def)
    have eq: "confirm env i a w =
        thenE (createDOM i (confirm_content x okTxt_default cancelTxt_default) w2) (\<lambda>w3.
          thenE (bindEvents env i w3) (\<lambda>w4.
          thenE (open_popup env i w4) (\<lambda>(r, w5). Inr (This i, w5))))"
      using Pos Some by (simp add: confirm_def w2_def)
    show ?thesis
      using build_and_open [OF a2, of "confirm_content x okTxt_default cancelTxt_default" env]
      apply (elim exE)
      subgoal for w'
        apply (rule exI [of _ w'])
        using eq Pos Some
        by (simp add: w2_def split: option.splits)
      done
  qed
qed


lemma prompt_tail:
  assumes "targetEl (popups w i) = Some t"
    and q1: "\<And>v r. rootQuerySelector env v (Some r) ''.prompot-ok'' = Inr (Some okE)"
    and q2: "\<And>v r. rootQuerySelector env v (Some r) ''.prompot-input'' = Inr (Some inE)"
  shows "\<exists>w'. thenE (createDOM i c w) (\<lambda>w3.
         thenE (bindEvents env i w3) (\<lambda>w4.
         thenE (querySelector env w4 (Some (containerEl (popups w4 i))) ''.prompot-ok'') (\<lambda>okEl.
         thenE (querySelector env w4 (Some (containerEl (popups w4 i))) ''.prompot-input'')
           (\<lambda>inputEl.
         let (f, w5) = new_fn w4
         in thenE (addEvent env okEl ''click touchstart'' (PromptOk f i inputEl) w5) (\<lambda>w6.
            thenE (open_popup env i w6) (\<lambda>(r, w7).
            thenE (deref inputEl) (\<lambda>inp.
              Inr (This i, w7\<lparr>activeElement := Some inp\<rparr>)))))))) = Inr (This i, w')
    \<and> prefixClass (popups w' i) = prefixClass (popups w i)
    \<and> isClosed (popups w' i) = Some False
    \<and> innerEl (popups w' i) = Some (Suc (Suc (next_el w)))
    \<and> innerHTML (elems w' (Suc (Suc (next_el w)))) = c
    \<and> activeElement w' = Some inE"
proof -
  obtain w3 where c3: "createDOM i c w = Inr w3"
    and p3: "popups w3 = (popups w)(i := (popups w i)\<lparr>popupEl := Some (next_el w),
          containerEl := Some (Suc (next_el w)), innerEl := Some (Suc (Suc (next_el w))),
          maskEl := Some (Suc (Suc (Suc (next_el w)))),
          closeEl := Some (Suc (Suc (Suc (Suc (next_el w)))))\<rparr>)"
    and e3: "innerHTML (elems w3 (Suc (Suc (next_el w)))) = c"
    using createDOM_effect [OF assms(1), of c] by blast
  have a3: "containerEl (popups w3 i) = Some (Suc (next_el w))"
    "maskEl (popups w3 i) = Some (Suc (Suc (Suc (next_el w))))"
    using p3 by simp_all
  obtain w4 where c4: "bindEvents env i w3 = Inr w4" and k4: "cosmetic w3 w4"
    using bindEvents_effect [OF a3] by blast
  have p4: "popups w4 = popups w3"
    using k4 by (simp add: cosmetic_def)
  obtain f w5 where n5: "new_fn w4 = (f, w5)"
    by (cases "new_fn w4")
  then have k5: "cosmetic w4 w5"
    using cosmetic_new_fn [of w4 w4] by simp
  obtain w6 where c6: "addEvent env (Some okE) ''click touchstart'' (PromptOk f i (Some inE)) w5
      = Inr w6" and k6: "cosmetic w5 w6"
    using addEvent_effect by blast
  have k: "cosmetic w3 w6"
    using k4 k5 k6 cosmetic_trans by blast
  then have p6: "popups w6 = popups w3"
    and e6: "innerHTML (elems w6 (Suc (Suc (next_el w)))) = c"
    using e3 by (simp_all add: cosmetic_def)
  have a6: "targetEl (popups w6 i) = Some t" "popupEl (popups w6 i) = Some (next_el w)"
    "innerEl (popups w6 i) = Some (Suc (Suc (next_el w)))"
    "containerEl (popups w6 i) = Some (Suc (next_el w))"
    using p6 p3 assms(1) by simp_all
  obtain w7 where c7: "open_popup env i w6 = Inr (This i, w7)"
    and p7: "popups w7 = (popups w6)(i := (popups w6 i)\<lparr>isClosed := Some False,
          scrollEvent := (if truthy (mask_flag (popups w6 i)) \<and> scrollEvent (popups w6 i) = None
                          then Some (onscroll (elems w6 t)) else scrollEvent (popups w6 i))\<rparr>)"
    and e7: "\<forall>e. innerHTML (elems w7 e) = innerHTML (elems w6 e)"
    using open_popup_effect [OF a6, of env] by auto
  have "thenE (createDOM i c w) (\<lambda>w3.
         thenE (bindEvents env i w3) (\<lambda>w4.
         thenE (querySelector env w4 (Some (containerEl (popups w4 i))) ''.prompot-ok'') (\<lambda>okEl.
         thenE (querySelector env w4 (Some (containerEl (popups w4 i))) ''.prompot-input'')
           (\<lambda>inputEl.
         let (f, w5) = new_fn w4
         in thenE (addEvent env okEl ''click touchstart'' (PromptOk f i inputEl) w5) (\<lambda>w6.
            thenE (open_popup env i w6) (\<lambda>(r, w7).
            thenE (deref inputEl) (\<lambda>inp.
              Inr (This i, w7\<lparr>activeElement := Some inp\<rparr>))))))))
      = Inr (This i, w7\<lparr>activeElement := Some inE\<rparr>)"
    using c3 c4 p4 a3 q1 q2 n5 c6 c7 by (simp add: querySelector_def)
  then show ?thesis
    using p7 p6 p3 e7 e6 by auto
qed

lemma prompt_effect:
  assumes "targetEl (popups w i) = Some t"
    and q1: "\<And>v r. rootQuerySelector env v (Some r) ''.prompot-ok'' = Inr (Some okE)"
    and q2: "\<And>v r. rootQuerySelector env v (Some r) ''.prompot-input'' = Inr (Some inE)"
  shows "\<exists>w'. prompt env i a w = Inr (This i, w')
    \<and> prefixClass (popups w' i) = Some ''prompot-''
    \<and> innerEl (popups w' i) = Some (Suc (Suc (next_el w)))
    \<and> innerHTML (elems w' (Suc (Suc (next_el w)))) =
        (case a of
           Obj p \<Rightarrow> prompt_content (p_txt p) (or_default (p_placeholder p) placeholder_default)
                      (or_default (p_okTxt p) okTxt_default)
                      (or_default (p_cancelTxt p) cancelTxt_default)
         | Pos x f g \<Rightarrow> prompt_content x placeholder_default okTxt_default cancelTxt_default)"
proof (cases a)
  case (Obj p)
  define w2 where "w2 = upd_popup i (\<lambda>q. q\<lparr>prefixClass := Some ''prompot-''\<rparr>)
     (upd_events (\<lambda>ev. ev\<lparr>cancelCallback := p_cancelCallback p\<rparr>)
     (upd_events (\<lambda>ev. ev\<lparr>okCallback := p_okCallback p\<rparr>) (preset_flags i p w)))"
  have a2: "targetEl (popups w2 i) = Some t"
    using assms(1) by (simp add: w2_def preset_flags_def)
  show ?thesis
    using prompt_tail [OF a2 q1 q2, of "prompt_content (p_txt p)
        (or_default (p_placeholder p) placeholder_default)
        (or_default (p_okTxt p) okTxt_default)
        (or_default (p_cancelTxt p) cancelTxt_default)"]
    apply (elim exE)
    subgoal for w'
      apply (rule exI [of _ w'])
      using Obj by (simp add: prompt_def w2_def preset_flags_def)
    done
next
  case (Pos x f g)
  show ?thesis
  proof (cases f)
    case None
    define w2 where "w2 = upd_popup i (\<lambda>q. q\<lparr>prefixClass := Some ''prompot-''\<rparr>) w"
    have a2: "targetEl (popups w2 i) = Some t"
      using assms(1) by (simp add: w2_def)
    show ?thesis
      using prompt_tail [OF a2 q1 q2,
          of "prompt_content x placeholder_default okTxt_default cancelTxt_default"]
      apply (elim exE)
      subgoal for w'
        apply (rule exI [of _ w'])
        using Pos None by (simp add: prompt_def w2_def)
      done
  next
    case (Some h)
    define w2 where "w2 = upd_popup i (\<lambda>q. q\<lparr>prefixClass := Some ''prompot-''\<rparr>)
      (upd_events (\<lambda>ev. ev\<lparr>cancelCallback := g\<rparr>)
      (upd_events (\<lambda>ev. ev\<lparr>okCallback := Some h\<rparr>) w))"
    have a2: "targetEl (popups w2 i) = Some t"
      using assms(1) by (simp add: w2_def)
    show ?thesis
      using prompt_tail [OF a2 q1 q2,
          of "prompt_content x placeholder_default okTxt_default cancelTxt_default"]
      apply (elim exE)
      subgoal for w'
        apply (rule exI [of _ w'])
        using Pos Some by (simp add: prompt_def w2_def)
      done
  qed
qed

lemma open_built:
  assumes "built w i t n"
  shows "\<exists>w'. open_popup env i w = Inr (This i, w') \<and> built w' i t n
    \<and> disposable (popups w' i) = disposable (popups w i)
    \<and> isClosed (popups w' i) = Some False
    \<and> mask_flag (popups w' i) = mask_flag (popups w i)
    \<and> autoSize (popups w' i) = autoSize (popups w i)
    \<and> delayCalculate (popups w' i) = delayCalculate (popups w i)
    \<and> scrollEvent (popups w' i) =
        (if truthy (mask_flag (popups w i)) \<and> scrollEvent (popups w i) = None
         then Some (onscroll (elems w t)) else scrollEvent (popups w i))
    \<and> onscroll (elems w' t) =
        (if truthy (mask_flag (popups w i)) then ScrollLock i (scrollTop (elems w t))
         else onscroll (elems w t))
    \<and> timers w' = (if autoSize (popups w i)
                    then (case delayCalculate (popups w i) of
                            Some d \<Rightarrow> timers w @ [(d, i)] | None \<Rightarrow> timers w)
                    else timers w)"
proof -
  have a: "targetEl (popups w i) = Some t" "popupEl (popups w i) = Some n"
    "innerEl (popups w i) = Some (Suc (Suc n))" "containerEl (popups w i) = Some (Suc n)"
    using assms by (simp_all add: built_def)
  show ?thesis
    using open_popup_effect [OF a, of env]
    apply (elim exE)
    subgoal for w'
      apply (rule exI [of _ w'])
      using assms by (simp add: built_def)
    done
qed

lemma close_built:
  assumes "built w i t n"
  shows "\<exists>r w'. close env i w = Inr (r, w')
    \<and> r = (if truthy (disposable (popups w i)) then RetTrue else This i)
    \<and> timers w' = timers w
    \<and> innerEl (popups w' i) = Some (Suc (Suc n))
    \<and> containerEl (popups w' i) = Some (Suc n)
    \<and> targetEl (popups w' i) = (if truthy (disposable (popups w i)) then None else Some t)
    \<and> popupEl (popups w' i) = (if truthy (disposable (popups w i)) then None else Some n)"
proof -
  have a: "targetEl (popups w i) = Some t" "popupEl (popups w i) = Some n"
    "containerEl (popups w i) = Some (Suc n)" "maskEl (popups w i) = Some (Suc (Suc (Suc n)))"
    "parentNode (elems w n) = Some t"
    using assms by (simp_all add: built_def)
  show ?thesis
    using close_effect [OF a, of env]
    apply (elim exE)
    subgoal for r w'
      apply (rule exI [of _ r])
      apply (rule exI [of _ w'])
      using assms by (simp add: built_def)
    done
qed

text \<open>The callback of the last timer, and size adaptation on a destroyed instance
  (line 539 passes the null \<^verbatim>\<open>targetEl\<close> on as \<^verbatim>\<open>rootEl\<close>, line 540 reads
  \<^verbatim>\<open>rootEl.clientHeight\<close>).\<close>

lemma fire_last:
  assumes "timers v = ts @ [(d, i)]"
  shows "fire_timer env (length ts) v = calculateSize env i (v\<lparr>timers := ts\<rparr>)"
  using assms by (simp add: fire_timer_def)

lemma calculateSize_destroyed:
  assumes "innerEl (popups v i) = Some iE" and "targetEl (popups v i) = None"
  shows "calculateSize env i v = Inl TypeError"
  using assms by (simp add: calculateSize_def)

section \<open>The example pages\<close>

lemma page0_facts:
  "targetEl (popups page0 0) = Some body" "disposable (popups page0 0) = Some True"
  "mask_flag (popups page0 0) = Some True" "scrollEvent (popups page0 0) = None"
  "isClosed (popups page0 0) = None" "autoSize (popups page0 0) = True"
  "delayCalculate (popups page0 0) = None" "eventsList page0 = no_events"
  "timers page0 = []" "next_el page0 = 2" "next_popup page0 = 1"
  "onscroll (elems page0 0) = PageFn 11" "scrollTop (elems page0 0) = 40"
  by (simp_all add: page0_def world_of_def Popup_def page_def new_popup_def)

lemma created_facts:
  "create content_fits 0 both_hooks page0 = Inr (This 0, created)"
  "built created 0 body 2" "disposable (popups created 0) = Some False"
  "mask_flag (popups created 0) = Some True" "scrollEvent (popups created 0) = None"
  "isClosed (popups created 0) = None" "autoSize (popups created 0) = True"
  "delayCalculate (popups created 0) = None"
  "eventsList created = no_events\<lparr>beforeClose := Some 8\<rparr>"
  "onscroll (elems created 0) = PageFn 11" "scrollTop (elems created 0) = 40"
  using create_effect [OF page0_facts(1), of content_fits both_hooks]
  by (auto simp: created_def world_of_def page0_facts both_hooks_def)


lemma alerted_facts:
  "alert content_fits 0 (Pos ''hello'' None None) page0 = Inr (This 0, alerted)"
  "built alerted 0 body 2" "disposable (popups alerted 0) = Some True"
  "isClosed (popups alerted 0) = Some False"
  using alert_effect [OF page0_facts(1), of content_fits "Pos ''hello'' None None"]
  by (auto simp: alerted_def world_of_def page0_facts)
lemma first_alert_facts:
  "alert content_fits 0 (Pos ''first'' (Some 7) None) page0 = Inr (This 0, first_alert)"
  "okCallback (eventsList first_alert) = Some 7" "next_popup first_alert = 1"
  using alert_effect [OF page0_facts(1), of content_fits "Pos ''first'' (Some 7) None"]
  by (auto simp: first_alert_def world_of_def page0_facts)

lemma second_popup_facts:
  "Popup content_fits None first_alert = Inr (1, second_popup)"
  "targetEl (popups second_popup 1) = Some body"
  "eventsList second_popup = eventsList first_alert"
  by (simp_all add: second_popup_def world_of_def Popup_def first_alert_facts new_popup_def)

lemma delayed_facts:
  "alert content_fits 0 (Obj slow_alert) page0 = Inr (This 0, delayed)"
  "built delayed 0 body 2" "disposable (popups delayed 0) = Some True"
  "timers delayed = [(200, 0)]"
  using alert_effect [OF page0_facts(1), of content_fits "Obj slow_alert"]
  by (auto simp: delayed_def world_of_def page0_facts slow_alert_def)

lemma delayed_closed_facts:
  "close content_fits 0 delayed = Inr (RetTrue, delayed_closed)"
  "timers delayed_closed = [(200, 0)]" "targetEl (popups delayed_closed 0) = None"
  "innerEl (popups delayed_closed 0) = Some 4"
  using close_built [OF delayed_facts(2), of content_fits]
  by (auto simp: delayed_closed_def world_of_def delayed_facts eval_nat_numeral)

lemma created_slow_facts:
  "create content_fits 0 slow_hooks page0 = Inr (This 0, created_slow)"
  "built created_slow 0 body 2" "disposable (popups created_slow 0) = Some False"
  "autoSize (popups created_slow 0)" "delayCalculate (popups created_slow 0) = Some 200"
  "timers created_slow = []"
  "mask_flag (popups created_slow 0) = Some True" "scrollEvent (popups created_slow 0) = None"
  "onscroll (elems created_slow 0) = PageFn 11" "scrollTop (elems created_slow 0) = 40"
  using create_effect [OF page0_facts(1), of content_fits slow_hooks]
  by (auto simp: created_slow_def world_of_def page0_facts slow_hooks_def)

lemma opened_slow_facts:
  "open_popup content_fits 0 created_slow = Inr (This 0, opened_slow)"
  "built opened_slow 0 body 2" "disposable (popups opened_slow 0) = Some False"
  "timers opened_slow = [(200, 0)]"
  "isClosed (popups opened_slow 0) = Some False"
  "mask_flag (popups opened_slow 0) = Some True"
  "scrollEvent (popups opened_slow 0) = Some (PageFn 11)"
  "onscroll (elems opened_slow 0) = ScrollLock 0 40"
  using open_built [OF created_slow_facts(2), of content_fits]
  by (auto simp: opened_slow_def world_of_def created_slow_facts body_def)

lemma closed_slow_facts:
  "close content_fits 0 opened_slow = Inr (This 0, closed_slow)"
  "timers closed_slow = [(200, 0)]" "targetEl (popups closed_slow 0) = Some 0"
  "popupEl (popups closed_slow 0) = Some 2" "innerEl (popups closed_slow 0) = Some 4"
  "containerEl (popups closed_slow 0) = Some 3"
  using close_built [OF opened_slow_facts(2), of content_fits]
  by (auto simp: closed_slow_def world_of_def opened_slow_facts eval_nat_numeral body_def)


section \<open>C1, C2: the constructor and create\<close>

text \<open>
  C1, at the selector \<^verbatim>\<open>'.test'\<close> that element 5 matches and at a selector that
  nothing matches: the code binds the instance to the body in the first case (not to
  element 5) and to \<^verbatim>\<open>null\<close> in the second (not to the body).
\<close>

theorem Popup_selector_target:
  "rootQuerySelector content_fits page None ''.test'' = Inr (Some 5)
   \<and> Popup content_fits (Some ''.test'') page = Inr (0, test_popup)
   \<and> targetEl (popups test_popup 0) = Some body
   \<and> body \<noteq> 5
   \<and> rootQuerySelector content_fits page None ''.nothing'' = Inr None
   \<and> Popup content_fits (Some ''.nothing'') page = Inr (0, stray_popup)
   \<and> targetEl (popups stray_popup 0) = None"
  by (simp add: test_popup_def stray_popup_def world_of_def Popup_def querySelector_def
      content_fits_def browser_def found_test_def body_def page_def new_popup_def)

text \<open>
  C2, at options with \<^verbatim>\<open>beforeClose\<close> the function 7 and \<^verbatim>\<open>afterClose\<close> the
  function 8: after \<^verbatim>\<open>create\<close> the \<^verbatim>\<open>beforeClose\<close> slot holds function 8 and the
  \<^verbatim>\<open>afterClose\<close> slot holds nothing.
\<close>

theorem create_hooks:
  "o_beforeClose both_hooks = Some 7 \<and> o_afterClose both_hooks = Some 8
   \<and> create content_fits 0 both_hooks page0 = Inr (This 0, created)
   \<and> beforeClose (eventsList created) = Some 8
   \<and> afterClose (eventsList created) = None"
proof -
  have "o_beforeClose both_hooks = Some 7 \<and> o_afterClose both_hooks = Some 8"
    by (simp add: both_hooks_def)
  then show ?thesis
    by (simp add: created_facts no_events_def)
qed

section \<open>C3: closing an open popup\<close>

text \<open>
  C3. For every open popup instance (target, wrapper, container and mask element set,
  the wrapper attached, \<^verbatim>\<open>isClosed\<close> false), \<^verbatim>\<open>close()\<close> returns; afterwards
  \<^verbatim>\<open>isClosed\<close> is true and the wrapper's \<^verbatim>\<open>display\<close> is \<^verbatim>\<open>'none'\<close>. If the
  instance is disposable, the result is that of \<^verbatim>\<open>destroy\<close> run after the closing
  steps, and the value returned is \<^verbatim>\<open>true\<close>, not the instance; otherwise the value
  returned is the instance.
\<close>

theorem close_open_instance:
  assumes "targetEl (popups w i) = Some t" and "popupEl (popups w i) = Some pE"
    and "containerEl (popups w i) = Some cE" and "maskEl (popups w i) = Some mE"
    and "parentNode (elems w pE) = Some t" and "isClosed (popups w i) = Some False"
  shows "\<exists>r w'. close env i w = Inr (r, w')
    \<and> isClosed (popups w' i) = Some True
    \<and> s_display (style (elems w' pE)) = Keyword ''none''
    \<and> (if truthy (disposable (popups w i))
        then r = RetTrue \<and> r \<noteq> This i
          \<and> (\<exists>w1. close_steps i w = Inr w1 \<and> destroy env i w1 = Inr w')
          \<and> popupEl (popups w' i) = None \<and> targetEl (popups w' i) = None
        else r = This i \<and> close_steps i w = Inr w')"
  using close_effect [OF assms(1-5), of env]
  apply (elim exE)
  subgoal for r w'
    apply (rule exI [of _ r])
    apply (rule exI [of _ w'])
    by (simp split: if_splits)
  done

theorem close_open_instance_witness:
  "targetEl (popups alerted 0) = Some 0 \<and> popupEl (popups alerted 0) = Some 2
   \<and> containerEl (popups alerted 0) = Some 3 \<and> maskEl (popups alerted 0) = Some 5
   \<and> parentNode (elems alerted 2) = Some 0 \<and> isClosed (popups alerted 0) = Some False
   \<and> (\<exists>w'. close content_fits 0 alerted = Inr (RetTrue, w')
         \<and> isClosed (popups w' 0) = Some True
         \<and> s_display (style (elems w' 2)) = Keyword ''none''
         \<and> popupEl (popups w' 0) = None)"
proof -
  have h: "targetEl (popups alerted 0) = Some 0" "popupEl (popups alerted 0) = Some 2"
    "containerEl (popups alerted 0) = Some 3" "maskEl (popups alerted 0) = Some 5"
    "parentNode (elems alerted 2) = Some 0" "isClosed (popups alerted 0) = Some False"
    using alerted_facts by (simp_all add: built_def body_def numeral_3_eq_3 eval_nat_numeral)
  show ?thesis
    using h close_open_instance [OF h, of content_fits] alerted_facts(3) by auto
qed

section \<open>C4, C5: size adaptation\<close>

text \<open>
  What size adaptation does guarantee, whatever the content and the viewport: the
  height it gives the container is at most the viewport height minus 80, and the width
  is at most the viewport width minus 100 whenever the height was not clamped (vertical
  overflow \<^verbatim>\<open>'hidden'\<close>).
\<close>

lemma calculateSize_bounds:
  assumes "innerEl (popups w i) = Some iE" and "containerEl (popups w i) = Some cE"
    and "popupEl (popups w i) = Some pE" and "targetEl (popups w i) = Some t"
    and "distinct [pE, cE, iE]"
    and "rootEl = (if t = body then documentElement else t)"
  shows "\<exists>w'. calculateSize env i w = Inr w'
    \<and> px_le (s_height (style (elems w' cE))) (clientHeight env (unforced iE w) rootEl - 80)
    \<and> (s_overflowY (style (elems w' iE)) = Keyword ''hidden''
         \<longrightarrow> px_le (s_width (style (elems w' cE)))
               (clientWidth env (unforced iE w) rootEl - 100))"
proof (cases "t = body")
  case True
  then show ?thesis
    using assms by (simp add: calculateSize_def Let_def px_le_def)
next
  case False
  then show ?thesis
    using assms by (simp add: calculateSize_def Let_def px_le_def)
qed

text \<open>
  C4, at content of 2000 by 1000 in a viewport of 1000 by 500: after \<^verbatim>\<open>open()\<close>
  on the instance made by \<^verbatim>\<open>create\<close> (auto-size on, no delay) the instance is not
  closed and the container's height is 420 = 500 - 80, but its width is 2000, above
  900 = 1000 - 100.
\<close>

theorem open_wide_content:
  "autoSize (popups created 0) \<and> delayCalculate (popups created 0) = None
   \<and> clientWidth content_wide created documentElement - 100 = 900
   \<and> clientHeight content_wide created documentElement - 80 = 420
   \<and> open_popup content_wide 0 created = Inr (This 0, opened_wide)
   \<and> isClosed (popups opened_wide 0) = Some False
   \<and> s_width (style (elems opened_wide 3)) = Px 2000
   \<and> s_height (style (elems opened_wide 3)) = Px 420"
proof -
  have h: "targetEl (popups created 0) = Some 0" "popupEl (popups created 0) = Some 2"
    "containerEl (popups created 0) = Some 3" "innerEl (popups created 0) = Some 4"
    using created_facts by (simp_all add: built_def body_def eval_nat_numeral)
  have "open_popup content_wide 0 created = Inr (This 0, w') \<Longrightarrow>
      isClosed (popups w' 0) = Some False \<and> s_width (style (elems w' 3)) = Px 2000
      \<and> s_height (style (elems w' 3)) = Px 420" for w'
    using h created_facts(4,5,7,8)
    by (auto simp: open_popup_def calculateSize_def Let_def content_wide_def browser_def
        body_def documentElement_def)
  moreover obtain w' where "open_popup content_wide 0 created = Inr (This 0, w')"
    using open_popup_effect [OF h(1,2,4,3), of content_wide] by blast
  ultimately show ?thesis
    using created_facts(7,8)
    by (auto simp: opened_wide_def world_of_def content_wide_def browser_def)
qed

text \<open>
  C5. For every instance with its subtree built, whenever the natural width of the
  content is below the viewport width minus 100 and its natural height below the
  viewport height minus 80, size adaptation returns, gives the inner element and the
  container exactly the natural width and height, and sets both overflows of the inner
  element to \<^verbatim>\<open>'hidden'\<close>.
\<close>

theorem calculateSize_fits:
  assumes "innerEl (popups w i) = Some iE" and "containerEl (popups w i) = Some cE"
    and "popupEl (popups w i) = Some pE" and "targetEl (popups w i) = Some t"
    and "distinct [pE, cE, iE]"
    and "rootEl = (if t = body then documentElement else t)"
    and "offsetWidth env (unforced iE w) iE < clientWidth env (unforced iE w) rootEl - 100"
    and "offsetHeight env (unforced iE w) iE < clientHeight env (unforced iE w) rootEl - 80"
  shows "\<exists>w'. calculateSize env i w = Inr w'
    \<and> s_width (style (elems w' iE)) = Px (of_int (offsetWidth env (unforced iE w) iE))
    \<and> s_height (style (elems w' iE)) = Px (of_int (offsetHeight env (unforced iE w) iE))
    \<and> s_overflowX (style (elems w' iE)) = Keyword ''hidden''
    \<and> s_overflowY (style (elems w' iE)) = Keyword ''hidden''
    \<and> s_width (style (elems w' cE)) = Px (of_int (offsetWidth env (unforced iE w) iE))
    \<and> s_height (style (elems w' cE)) = Px (of_int (offsetHeight env (unforced iE w) iE))"
proof (cases "t = body")
  case True
  then show ?thesis
    using assms by (simp add: calculateSize_def Let_def)
next
  case False
  then show ?thesis
    using assms by (simp add: calculateSize_def Let_def)
qed

theorem calculateSize_fits_witness:
  "innerEl (popups created 0) = Some 4 \<and> containerEl (popups created 0) = Some 3
   \<and> popupEl (popups created 0) = Some 2 \<and> targetEl (popups created 0) = Some 0
   \<and> distinct [2, 3, 4 :: nat]
   \<and> offsetWidth content_fits (unforced 4 created) 4
       < clientWidth content_fits (unforced 4 created) documentElement - 100
   \<and> offsetHeight content_fits (unforced 4 created) 4
       < clientHeight content_fits (unforced 4 created) documentElement - 80
   \<and> (\<exists>w'. calculateSize content_fits 0 created = Inr w'
         \<and> s_width (style (elems w' 4)) = Px 300 \<and> s_height (style (elems w' 4)) = Px 200
         \<and> s_overflowX (style (elems w' 4)) = Keyword ''hidden''
         \<and> s_overflowY (style (elems w' 4)) = Keyword ''hidden''
         \<and> s_width (style (elems w' 3)) = Px 300 \<and> s_height (style (elems w' 3)) = Px 200)"
proof -
  have h: "innerEl (popups created 0) = Some 4" "containerEl (popups created 0) = Some 3"
    "popupEl (popups created 0) = Some 2" "targetEl (popups created 0) = Some 0"
    "distinct [2, 3, 4 :: nat]" "documentElement = (if (0::nat) = body then documentElement else 0)"
    "offsetWidth content_fits (unforced 4 created) 4
       < clientWidth content_fits (unforced 4 created) documentElement - 100"
    "offsetHeight content_fits (unforced 4 created) 4
       < clientHeight content_fits (unforced 4 created) documentElement - 80"
    using created_facts
    by (simp_all add: built_def body_def eval_nat_numeral content_fits_def browser_def)
  show ?thesis
    using h(1-5,7,8) calculateSize_fits [OF h]
    by (simp add: content_fits_def browser_def)
qed

section \<open>C6: the scroll lock over open and close\<close>

lemma open_live:
  assumes "live h0 y0 t i d w"
  shows "\<exists>w'. open_popup env i w = Inr (This i, w') \<and> live h0 y0 t i d w'
    \<and> isClosed (popups w' i) = Some False"
proof -
  obtain pE par cE iE mE where a: "targetEl (popups w i) = Some t"
    "popupEl (popups w i) = Some pE" "innerEl (popups w i) = Some iE"
    "containerEl (popups w i) = Some cE"
    and m: "maskEl (popups w i) = Some mE" "parentNode (elems w pE) = Some par"
    using assms by (auto simp: live_def)
  show ?thesis
    using open_popup_effect [OF a, of env]
    apply (elim exE)
    subgoal for w'
      apply (rule exI [of _ w'])
      using assms a m by (simp add: live_def)
    done
qed

lemma close_live:
  assumes "live h0 y0 t i d w" and "\<not> truthy d"
  shows "\<exists>w'. close env i w = Inr (This i, w') \<and> live h0 y0 t i d w'
    \<and> isClosed (popups w' i) = Some True"
proof -
  obtain pE par cE iE mE where a: "targetEl (popups w i) = Some t"
    "popupEl (popups w i) = Some pE" "containerEl (popups w i) = Some cE"
    "maskEl (popups w i) = Some mE" "parentNode (elems w pE) = Some par"
    and m: "innerEl (popups w i) = Some iE"
    using assms by (auto simp: live_def)
  have d: "disposable (popups w i) = d"
    using assms by (simp add: live_def)
  show ?thesis
    using close_effect [OF a, of env]
    apply (elim exE)
    subgoal for r w'
      apply (rule exI [of _ w'])
      using assms a m d by (simp add: live_def)
    done
qed

lemma close_last:
  assumes "live h0 y0 t i d w" and "truthy d"
  shows "\<exists>w'. close env i w = Inr (RetTrue, w') \<and> targetEl (popups w' i) = None
    \<and> popupEl (popups w' i) = None \<and> mask_flag (popups w' i) = None
    \<and> scrollEvent (popups w' i) = Some h0 \<and> isClosed (popups w' i) = Some True
    \<and> onscroll (elems w' t) = h0"
proof -
  obtain pE par cE mE where a: "targetEl (popups w i) = Some t"
    "popupEl (popups w i) = Some pE" "containerEl (popups w i) = Some cE"
    "maskEl (popups w i) = Some mE" "parentNode (elems w pE) = Some par"
    using assms by (auto simp: live_def)
  have d: "disposable (popups w i) = d" "mask_flag (popups w i) = Some True"
    "scrollEvent (popups w i) = Some h0"
    using assms by (simp_all add: live_def)
  show ?thesis
    using close_effect [OF a, of env]
    apply (elim exE)
    subgoal for r w'
      apply (rule exI [of _ w'])
      using assms(2) d by simp
    done
qed

lemma open_destroyed:
  "targetEl (popups w i) = None \<Longrightarrow> open_popup env i w = Inl TypeError"
  by (simp add: open_popup_def)

lemma close_destroyed:
  "mask_flag (popups w i) = None \<Longrightarrow> popupEl (popups w i) = None
    \<Longrightarrow> close env i w = Inl TypeError"
  by (simp add: close_def close_steps_def Let_def)

lemma run_destroyed:
  assumes "targetEl (popups w i) = None" and "mask_flag (popups w i) = None"
    and "popupEl (popups w i) = None" and "cs \<noteq> []"
  shows "run env i cs w = Inl TypeError"
proof (cases cs)
  case Nil
  then show ?thesis using assms by simp
next
  case (Cons c cs')
  then show ?thesis
    using assms open_destroyed [of w i env] close_destroyed [of w i env] by (cases c) simp_all
qed

lemma run_live:
  assumes "live h0 y0 t i d w"
  shows "case run env i cs w of
           Inr w' \<Rightarrow> scrollEvent (popups w' i) = Some h0
             \<and> isClosed (popups w' i) =
                 (if cs = [] then isClosed (popups w i) else Some (last cs = Close))
             \<and> onscroll (elems w' t) =
                 (if isClosed (popups w' i) = Some True then h0 else ScrollLock i y0)
         | Inl e \<Rightarrow> truthy d \<and> Close \<in> set (butlast cs)"
  using assms
proof (induction cs arbitrary: w)
  case Nil
  then show ?case by (simp add: live_def)
next
  case (Cons c cs)
  show ?case
  proof (cases c)
    case Open
    obtain w1 where o: "open_popup env i w = Inr (This i, w1)" and l: "live h0 y0 t i d w1"
      and f: "isClosed (popups w1 i) = Some False"
      using open_live [OF Cons.prems] by blast
    have "run env i (c # cs) w = run env i cs w1"
      using Open o by simp
    then show ?thesis
      using Cons.IH [OF l] f Open by (auto split: sum.splits)
  next
    case Close
    show ?thesis
    proof (cases "truthy d")
      case False
      obtain w1 where o: "close env i w = Inr (This i, w1)" and l: "live h0 y0 t i d w1"
        and f: "isClosed (popups w1 i) = Some True"
        using close_live [OF Cons.prems False] by blast
      have "run env i (c # cs) w = run env i cs w1"
        using Close o by simp
      then show ?thesis
        using Cons.IH [OF l] f Close by (auto split: sum.splits)
    next
      case True
      obtain w1 where o: "close env i w = Inr (RetTrue, w1)"
        and g: "targetEl (popups w1 i) = None" "mask_flag (popups w1 i) = None"
          "popupEl (popups w1 i) = None"
        and k: "scrollEvent (popups w1 i) = Some h0" "isClosed (popups w1 i) = Some True"
          "onscroll (elems w1 t) = h0"
        using close_last [OF Cons.prems True] by blast
      have r: "run env i (c # cs) w = run env i cs w1"
        using Close o by simp
      show ?thesis
      proof (cases "cs = []")
        case True
        then show ?thesis using r k Close by simp
      next
        case False
        then show ?thesis
          using r run_destroyed [OF g False, of env] True Close by simp
      qed
    qed
  qed
qed

text \<open>
  C6. Take an instance with a mask whose subtree is built and which has never been
  opened (no handler saved yet), and any sequence of \<^verbatim>\<open>open()\<close> and
  \<^verbatim>\<open>close()\<close> calls that starts with \<^verbatim>\<open>open()\<close>. If the calls all return, then
  afterwards the saved handler is the one the target had before the first
  \<^verbatim>\<open>open()\<close>. If the last call was \<^verbatim>\<open>close()\<close>, the instance is closed and the
  target's scroll slot holds that original handler again; if the last call was
  \<^verbatim>\<open>open()\<close>, the instance is not closed and the slot holds the lock pinning
  \<^verbatim>\<open>scrollTop\<close>. As the sequence is arbitrary, this holds after every
  \<^verbatim>\<open>close()\<close> and every \<^verbatim>\<open>open()\<close> of it. A call raises only on a
  disposable instance that an earlier \<^verbatim>\<open>close()\<close> of the sequence destroyed.
\<close>

theorem scroll_lock_cycles:
  assumes "targetEl (popups w i) = Some t" and "popupEl (popups w i) = Some pE"
    and "innerEl (popups w i) = Some iE" and "containerEl (popups w i) = Some cE"
    and "maskEl (popups w i) = Some mE" and "parentNode (elems w pE) = Some par"
    and "mask_flag (popups w i) = Some True" and "scrollEvent (popups w i) = None"
  shows "case run env i (Open # cs) w of
           Inr w' \<Rightarrow> scrollEvent (popups w' i) = Some (onscroll (elems w t))
             \<and> isClosed (popups w' i) = Some (last (Open # cs) = Close)
             \<and> onscroll (elems w' t) =
                 (if last (Open # cs) = Close then onscroll (elems w t)
                  else ScrollLock i (scrollTop (elems w t)))
         | Inl e \<Rightarrow> truthy (disposable (popups w i)) \<and> Close \<in> set (butlast cs)"
proof -
  have "\<exists>w1. open_popup env i w = Inr (This i, w1)
      \<and> live (onscroll (elems w t)) (scrollTop (elems w t)) t i (disposable (popups w i)) w1
      \<and> isClosed (popups w1 i) = Some False"
    using open_popup_effect [OF assms(1-4), of env]
    apply (elim exE)
    subgoal for w1
      apply (rule exI [of _ w1])
      using assms by (simp add: live_def)
    done
  then obtain w1 where o: "open_popup env i w = Inr (This i, w1)"
    and l: "live (onscroll (elems w t)) (scrollTop (elems w t)) t i (disposable (popups w i)) w1"
    and f: "isClosed (popups w1 i) = Some False"
    by blast
  have "run env i (Open # cs) w = run env i cs w1"
    using o by simp
  then show ?thesis
    using run_live [OF l, where env = env and cs = cs] f
    by (auto split: sum.splits)
qed

theorem scroll_lock_cycles_witness:
  "targetEl (popups created 0) = Some 0 \<and> popupEl (popups created 0) = Some 2
   \<and> innerEl (popups created 0) = Some 4 \<and> containerEl (popups created 0) = Some 3
   \<and> maskEl (popups created 0) = Some 5 \<and> parentNode (elems created 2) = Some 0
   \<and> mask_flag (popups created 0) = Some True \<and> scrollEvent (popups created 0) = None
   \<and> onscroll (elems created 0) = PageFn 11
   \<and> (case run content_fits 0 [Open, Open, Close, Open, Close] created of
         Inr w' \<Rightarrow> scrollEvent (popups w' 0) = Some (PageFn 11)
           \<and> isClosed (popups w' 0) = Some True
           \<and> onscroll (elems w' 0) = PageFn 11
       | Inl e \<Rightarrow> False)"
proof -
  have h: "targetEl (popups created 0) = Some 0" "popupEl (popups created 0) = Some 2"
    "innerEl (popups created 0) = Some 4" "containerEl (popups created 0) = Some 3"
    "maskEl (popups created 0) = Some 5" "parentNode (elems created 2) = Some 0"
    "mask_flag (popups created 0) = Some True" "scrollEvent (popups created 0) = None"
    using created_facts by (simp_all add: built_def body_def eval_nat_numeral)
  show ?thesis
    using h scroll_lock_cycles [OF h, where env = content_fits
        and cs = "[Open, Close, Open, Close]"]
      created_facts(3,10,11)
    by (auto split: sum.splits)
qed

section \<open>C7: the prompt preset\<close>

text \<open>
  C7, at \<^verbatim>\<open>Popup().prompt({txt: 'y', okTxt: 'ok', cancelTxt: 'no', placeholder:
  'js'})\<close>: the prefix set on the instance is \<^verbatim>\<open>prompot-\<close>, not \<^verbatim>\<open>prompt-\<close>,
  and the classes of the markup are \<^verbatim>\<open>prompot-content\<close>, \<^verbatim>\<open>prompot-input\<close>,
  \<^verbatim>\<open>prompot-ok\<close> and \<^verbatim>\<open>prompot-cancel\<close>.
\<close>

theorem prompt_prefix:
  \<open>prompt content_fits 0 (Obj ask) page0 = Inr (This 0, prompted)
   \<and> prefixClass (popups prompted 0) = Some ''prompot-''
   \<and> ''prompot-'' \<noteq> ''prompt-''
   \<and> innerEl (popups prompted 0) = Some 4
   \<and> innerHTML (elems prompted 4) =
       ''<p class="prompot-content">y</p><input class="prompot-input" type="text" placeholder=js><a class="prompot-ok popup-ok">ok</a><a class="prompot-cancel popup-cancel">no</a>''\<close>
proof -
  have q: "rootQuerySelector content_fits v (Some r) ''.prompot-ok'' = Inr (Some 100)"
    "rootQuerySelector content_fits v (Some r) ''.prompot-input'' = Inr (Some 101)" for v r
    by (simp_all add: content_fits_def browser_def)
  have c: \<open>prompt_content (p_txt ask) (or_default (p_placeholder ask) placeholder_default)
      (or_default (p_okTxt ask) okTxt_default) (or_default (p_cancelTxt ask) cancelTxt_default)
    = ''<p class="prompot-content">y</p><input class="prompot-input" type="text" placeholder=js><a class="prompot-ok popup-ok">ok</a><a class="prompot-cancel popup-cancel">no</a>''\<close>
    by (simp add: prompt_content_def ask_def or_default_def)
  show ?thesis
    using prompt_effect [OF page0_facts(1) q, of "Obj ask"] c
    by (auto simp: prompted_def world_of_def page0_facts eval_nat_numeral)
qed

section \<open>C8: destroying an instance\<close>




section \<open>C9: the deferred size adaptation\<close>

text \<open>
  C9 as stated fails: after \<^verbatim>\<open>Popup().alert({txt: 'wait', delayCalculate: 200})\<close>
  and a \<^verbatim>\<open>close()\<close> during the delay (which destroys the disposable instance), the
  timer is still pending, and its callback raises a \<^verbatim>\<open>TypeError\<close>: it runs size
  adaptation unguarded on the destroyed instance.
\<close>

theorem deferred_after_destroy:
  "alert content_fits 0 (Obj slow_alert) page0 = Inr (This 0, delayed)
   \<and> timers delayed = [(200, 0)]
   \<and> close content_fits 0 delayed = Inr (RetTrue, delayed_closed)
   \<and> timers delayed_closed = [(200, 0)]
   \<and> fire_timer content_fits 0 delayed_closed = Inl TypeError"
  by (simp add: delayed_facts delayed_closed_facts fire_timer_def calculateSize_def)

text \<open>
  C9, as amended. With auto-size on and a delay \<open>d\<close> configured, \<^verbatim>\<open>open()\<close> on an
  instance that is not destroyed returns and leaves one more pending callback, for
  \<open>d\<close> and this instance. The callback is size adaptation on the instance, with no
  test of the instance's elements before it, and neither \<^verbatim>\<open>close()\<close> nor
  \<^verbatim>\<open>destroy()\<close> cancels it: run right after \<^verbatim>\<open>open()\<close> it returns; after a
  \<^verbatim>\<open>close()\<close> during the delay it is still pending, and it returns if the instance
  was only closed, but raises a \<^verbatim>\<open>TypeError\<close> if the instance is disposable, so
  that the close destroyed it; after a \<^verbatim>\<open>destroy()\<close> during the delay it is still
  pending and raises a \<^verbatim>\<open>TypeError\<close>.
\<close>

theorem deferred_size_calculation:
  assumes "targetEl (popups w i) = Some t" and "popupEl (popups w i) = Some pE"
    and "innerEl (popups w i) = Some iE" and "containerEl (popups w i) = Some cE"
    and "maskEl (popups w i) = Some mE" and "parentNode (elems w pE) = Some par"
    and "autoSize (popups w i)" and "delayCalculate (popups w i) = Some d"
  shows "\<exists>w1. open_popup env i w = Inr (This i, w1)
    \<and> timers w1 = timers w @ [(d, i)]
    \<and> fire_timer env (length (timers w)) w1 = calculateSize env i (w1\<lparr>timers := timers w\<rparr>)
    \<and> (\<exists>u. fire_timer env (length (timers w)) w1 = Inr u)
    \<and> (\<exists>r w2. close env i w1 = Inr (r, w2)
          \<and> timers w2 = timers w @ [(d, i)]
          \<and> fire_timer env (length (timers w)) w2
              = calculateSize env i (w2\<lparr>timers := timers w\<rparr>)
          \<and> (if truthy (disposable (popups w i))
              then fire_timer env (length (timers w)) w2 = Inl TypeError
              else (\<exists>u. fire_timer env (length (timers w)) w2 = Inr u)))
    \<and> (\<exists>w3. destroy env i w1 = Inr w3
          \<and> timers w3 = timers w @ [(d, i)]
          \<and> fire_timer env (length (timers w)) w3
              = calculateSize env i (w3\<lparr>timers := timers w\<rparr>)
          \<and> fire_timer env (length (timers w)) w3 = Inl TypeError)"
proof -
  obtain w1 where o: "open_popup env i w = Inr (This i, w1)"
    and p1: "popups w1 = (popups w)(i := (popups w i)\<lparr>isClosed := Some False,
          scrollEvent := (if truthy (mask_flag (popups w i)) \<and> scrollEvent (popups w i) = None
                          then Some (onscroll (elems w t)) else scrollEvent (popups w i))\<rparr>)"
    and t1: "timers w1 = timers w @ [(d, i)]"
    and e1: "\<forall>e. parentNode (elems w1 e) = parentNode (elems w e)"
    using open_popup_effect [OF assms(1-4), of env] assms(7,8) by auto
  have a1: "targetEl (popups w1 i) = Some t" "popupEl (popups w1 i) = Some pE"
    "containerEl (popups w1 i) = Some cE" "maskEl (popups w1 i) = Some mE"
    "parentNode (elems w1 pE) = Some par"
    using assms p1 e1 by simp_all
  have i1: "innerEl (popups w1 i) = Some iE" "disposable (popups w1 i) = disposable (popups w i)"
    using assms p1 by simp_all
  have f1: "fire_timer env (length (timers w)) w1
      = calculateSize env i (w1\<lparr>timers := timers w\<rparr>)"
    using t1 by (rule fire_last)
  have r1: "\<exists>u. fire_timer env (length (timers w)) w1 = Inr u"
    using calculateSize_effect [of "w1\<lparr>timers := timers w\<rparr>" i iE cE t pE env] a1 i1 f1
    by auto
  have c: "\<exists>r w2. close env i w1 = Inr (r, w2)
          \<and> timers w2 = timers w @ [(d, i)]
          \<and> fire_timer env (length (timers w)) w2
              = calculateSize env i (w2\<lparr>timers := timers w\<rparr>)
          \<and> (if truthy (disposable (popups w i))
              then fire_timer env (length (timers w)) w2 = Inl TypeError
              else (\<exists>u. fire_timer env (length (timers w)) w2 = Inr u))"
  proof -
    obtain r w2 where c2: "close env i w1 = Inr (r, w2)"
      and t2: "timers w2 = timers w1"
      and i2: "innerEl (popups w2 i) = innerEl (popups w1 i)"
      and c2e: "containerEl (popups w2 i) = Some cE"
      and g2: "targetEl (popups w2 i) = (if truthy (disposable (popups w1 i)) then None else Some t)"
      and q2: "popupEl (popups w2 i) = (if truthy (disposable (popups w1 i)) then None else Some pE)"
      using close_effect [OF a1, of env] by blast
    have tt: "timers w2 = timers w @ [(d, i)]"
      using t1 t2 by simp
    have f2: "fire_timer env (length (timers w)) w2
        = calculateSize env i (w2\<lparr>timers := timers w\<rparr>)"
      using tt by (rule fire_last)
    have b2: "if truthy (disposable (popups w i))
              then fire_timer env (length (timers w)) w2 = Inl TypeError
              else (\<exists>u. fire_timer env (length (timers w)) w2 = Inr u)"
    proof (cases "truthy (disposable (popups w i))")
      case True
      then have "calculateSize env i (w2\<lparr>timers := timers w\<rparr>) = Inl TypeError"
        using i1 i2 g2 by (intro calculateSize_destroyed [of _ _ iE]) simp_all
      then show ?thesis
        using True f2 by simp
    next
      case False
      then have "\<exists>u. calculateSize env i (w2\<lparr>timers := timers w\<rparr>) = Inr u"
        using calculateSize_effect [of "w2\<lparr>timers := timers w\<rparr>" i iE cE t pE env]
          i1 i2 c2e g2 q2
        by auto
      then show ?thesis
        using False f2 by simp
    qed
    show ?thesis
      using c2 tt f2 b2 by blast
  qed
  have d: "\<exists>w3. destroy env i w1 = Inr w3
          \<and> timers w3 = timers w @ [(d, i)]
          \<and> fire_timer env (length (timers w)) w3
              = calculateSize env i (w3\<lparr>timers := timers w\<rparr>)
          \<and> fire_timer env (length (timers w)) w3 = Inl TypeError"
  proof -
    obtain w3 where d3: "destroy env i w1 = Inr w3"
      and t3: "timers w3 = timers w1"
      and i3: "innerEl (popups w3 i) = innerEl (popups w1 i)"
      and g3: "targetEl (popups w3 i) = None"
      using destroy_effect [OF a1, of env] by blast
    have tt: "timers w3 = timers w @ [(d, i)]"
      using t1 t3 by simp
    have f3: "fire_timer env (length (timers w)) w3
        = calculateSize env i (w3\<lparr>timers := timers w\<rparr>)"
      using tt by (rule fire_last)
    have "calculateSize env i (w3\<lparr>timers := timers w\<rparr>) = Inl TypeError"
      using i1 i3 g3 by (intro calculateSize_destroyed [of _ _ iE]) simp_all
    then show ?thesis
      using d3 tt f3 by simp
  qed
  show ?thesis
    using o t1 f1 r1 c d by blast
qed

theorem deferred_size_calculation_witness:
  "targetEl (popups created_slow 0) = Some 0 \<and> popupEl (popups created_slow 0) = Some 2
   \<and> innerEl (popups created_slow 0) = Some 4 \<and> containerEl (popups created_slow 0) = Some 3
   \<and> maskEl (popups created_slow 0) = Some 5 \<and> parentNode (elems created_slow 2) = Some 0
   \<and> autoSize (popups created_slow 0) \<and> delayCalculate (popups created_slow 0) = Some 200
   \<and> disposable (popups created_slow 0) = Some False \<and> timers created_slow = []
   \<and> (\<exists>w1. open_popup content_fits 0 created_slow = Inr (This 0, w1)
         \<and> timers w1 = [(200, 0)]
         \<and> (\<exists>u. fire_timer content_fits 0 w1 = Inr u)
         \<and> (\<exists>r w2. close content_fits 0 w1 = Inr (r, w2) \<and> timers w2 = [(200, 0)]
               \<and> (\<exists>u. fire_timer content_fits 0 w2 = Inr u))
         \<and> (\<exists>w3. destroy content_fits 0 w1 = Inr w3 \<and> timers w3 = [(200, 0)]
               \<and> fire_timer content_fits 0 w3 = Inl TypeError))"
proof -
  have h: "targetEl (popups created_slow 0) = Some 0" "popupEl (popups created_slow 0) = Some 2"
    "innerEl (popups created_slow 0) = Some 4" "containerEl (popups created_slow 0) = Some 3"
    "maskEl (popups created_slow 0) = Some 5" "parentNode (elems created_slow 2) = Some 0"
    "autoSize (popups created_slow 0)" "delayCalculate (popups created_slow 0) = Some 200"
    using created_slow_facts
    by (simp_all add: built_def body_def eval_nat_numeral)
  have k: "disposable (popups created_slow 0) = Some False" "timers created_slow = []"
    using created_slow_facts by simp_all
  show ?thesis
    using h k deferred_size_calculation [OF h, of content_fits] by auto
qed

section \<open>C10: one callback map for all instances\<close>

text \<open>
  C10, at two instances: \<^verbatim>\<open>Popup().alert('first', f7)\<close> registers function 7 as
  the \<^verbatim>\<open>okCallback\<close> that instance 0 reads; \<^verbatim>\<open>Popup().confirm('second', f9,
  f10)\<close> on the new instance 1 then changes what instance 0 reads to function 9.
\<close>

theorem shared_eventsList:
  "alert content_fits 0 (Pos ''first'' (Some 7) None) page0 = Inr (This 0, first_alert)
   \<and> okCallback (this_eventsList first_alert 0) = Some 7
   \<and> Popup content_fits None first_alert = Inr (1, second_popup)
   \<and> confirm content_fits 1 (Pos ''second'' (Some 9) (Some 10)) second_popup
       = Inr (This 1, second_confirm)
   \<and> okCallback (this_eventsList second_confirm 0) = Some 9"
  using confirm_effect [OF second_popup_facts(2), of content_fits
      "Pos ''second'' (Some 9) (Some 10)"]
  by (auto simp: first_alert_facts second_popup_facts this_eventsList_def second_confirm_def
      world_of_def)

end
